theory Spec2Isabelle
  imports Complex_Main
begin

section \<open>Python exceptions and name resolution\<close>

text \<open>
  The two source files are \<^verbatim>\<open>models/vae.py\<close> and \<^verbatim>\<open>models/vq_vae_2.py\<close>.
  Every Python call that can raise returns \<open>error + 'a\<close>, with \<open>Inl\<close> the exception.
\<close>

datatype error =
    NameError string
  | AttributeError string
  | IndexError
  | ValueError
  | RuntimeError
  | TypeError
  | StopIteration

definition bind_res :: "error + 'a \<Rightarrow> ('a \<Rightarrow> error + 'b) \<Rightarrow> error + 'b" where
  "bind_res r f = (case r of Inl e \<Rightarrow> Inl e | Inr v \<Rightarrow> f v)"

text \<open>
  A name that is not a local variable of the running function is looked up in the
  globals of the module that defines the function and then among the builtins; when
  both miss, Python raises \<open>NameError\<close>.
\<close>

definition module_dunders :: "string list" where
  "module_dunders =
     [''__name__'', ''__doc__'', ''__package__'', ''__loader__'', ''__spec__'',
      ''__file__'', ''__cached__'', ''__builtins__'']"

definition builtin_names :: "string list" where
  "builtin_names =
     [''abs'', ''all'', ''any'', ''ascii'', ''bin'', ''bool'', ''breakpoint'', ''bytearray'',
      ''bytes'', ''callable'', ''chr'', ''classmethod'', ''compile'', ''complex'',
      ''delattr'', ''dict'', ''dir'', ''divmod'', ''enumerate'', ''eval'', ''exec'',
      ''filter'', ''float'', ''format'', ''frozenset'', ''getattr'', ''globals'',
      ''hasattr'', ''hash'', ''help'', ''hex'', ''id'', ''input'', ''int'', ''isinstance'',
      ''issubclass'', ''iter'', ''len'', ''list'', ''locals'', ''map'', ''max'',
      ''memoryview'', ''min'', ''next'', ''object'', ''oct'', ''open'', ''ord'', ''pow'',
      ''print'', ''property'', ''range'', ''repr'', ''reversed'', ''round'', ''set'',
      ''setattr'', ''slice'', ''sorted'', ''staticmethod'', ''str'', ''sum'', ''super'',
      ''tuple'', ''type'', ''vars'', ''zip'', ''__import__'', ''__build_class__'',
      ''__debug__'', ''None'', ''True'', ''False'', ''Ellipsis'', ''NotImplemented'',
      ''copyright'', ''credits'', ''license'', ''exit'', ''quit'',
      ''BaseException'', ''Exception'', ''ArithmeticError'', ''AssertionError'',
      ''AttributeError'', ''BlockingIOError'', ''BrokenPipeError'', ''BufferError'',
      ''BytesWarning'', ''ChildProcessError'', ''ConnectionAbortedError'',
      ''ConnectionError'', ''ConnectionRefusedError'', ''ConnectionResetError'',
      ''DeprecationWarning'', ''EOFError'', ''EnvironmentError'', ''FileExistsError'',
      ''FileNotFoundError'', ''FloatingPointError'', ''FutureWarning'', ''GeneratorExit'',
      ''IOError'', ''ImportError'', ''ImportWarning'', ''IndentationError'', ''IndexError'',
      ''InterruptedError'', ''IsADirectoryError'', ''KeyError'', ''KeyboardInterrupt'',
      ''LookupError'', ''MemoryError'', ''ModuleNotFoundError'', ''NameError'',
      ''NotADirectoryError'', ''NotImplementedError'', ''OSError'', ''OverflowError'',
      ''PendingDeprecationWarning'', ''PermissionError'', ''ProcessLookupError'',
      ''RecursionError'', ''ReferenceError'', ''ResourceWarning'', ''RuntimeError'',
      ''RuntimeWarning'', ''StopAsyncIteration'', ''StopIteration'', ''SyntaxError'',
      ''SyntaxWarning'', ''SystemError'', ''SystemExit'', ''TabError'', ''TimeoutError'',
      ''TypeError'', ''UnboundLocalError'', ''UnicodeDecodeError'', ''UnicodeEncodeError'',
      ''UnicodeError'', ''UnicodeTranslateError'', ''UnicodeWarning'', ''UserWarning'',
      ''ValueError'', ''Warning'', ''ZeroDivisionError'']"

definition load_global :: "string list \<Rightarrow> string \<Rightarrow> error + unit" where
  "load_global globals name =
     (if name \<in> set globals \<or> name \<in> set builtin_names then Inr ()
      else Inl (NameError name))"

definition load_name :: "string list \<Rightarrow> string list \<Rightarrow> string \<Rightarrow> error + unit" where
  "load_name locals globals name =
     (if name \<in> set locals then Inr () else load_global globals name)"

text \<open>
  The names bound at module level, read off the top-level statements of each file:
  the \<^verbatim>\<open>import\<close> lines, the \<^verbatim>\<open>class\<close> and the \<^verbatim>\<open>def\<close>.
\<close>

definition vae_globals :: "string list" where
  "vae_globals = module_dunders @ [''torch'', ''nn'', ''vaes'', ''VAE'', ''reproduce'']"

definition vq_vae_2_globals :: "string list" where
  "vq_vae_2_globals =
     module_dunders @ [''torch'', ''nn'', ''vaes'', ''VQVAE2'', ''reproduce'']"

text \<open>\<open>with_global g n r\<close>: resolve the global name \<open>n\<close>, then go on with \<open>r\<close>.\<close>

definition with_global :: "string list \<Rightarrow> string \<Rightarrow> error + 'a \<Rightarrow> error + 'a" where
  "with_global globals name r = bind_res (load_global globals name) (\<lambda>_. r)"

section \<open>Tensors\<close>

text \<open>
  A tensor is its shape and its elements in row-major order. The element type \<open>'a\<close>
  stands for the floating-point numbers of the library and is left open: nothing is
  assumed about them.
\<close>

datatype 'a tensor = Tensor (shape: "nat list") (vals: "'a list")

definition wf_tensor :: "'a tensor \<Rightarrow> bool" where
  "wf_tensor t = (length (vals t) = prod_list (shape t))"

text \<open>
  The arithmetic of the library on single elements is a parameter as well: the
  conversion of a Python scalar, the rounded operations, and the mean of the elements
  that a reduction over the dimensions \<open>dims\<close> visits, in row-major order (whatever the
  library's order of summation, and whatever it returns for no element at all).
\<close>

record 'a arith =
  f_const :: "real \<Rightarrow> 'a"
  f_add :: "'a \<Rightarrow> 'a \<Rightarrow> 'a"
  f_sub :: "'a \<Rightarrow> 'a \<Rightarrow> 'a"
  f_mul :: "'a \<Rightarrow> 'a \<Rightarrow> 'a"
  f_pow :: "'a \<Rightarrow> nat \<Rightarrow> 'a"
  f_exp :: "'a \<Rightarrow> 'a"
  f_sqrt :: "'a \<Rightarrow> 'a"
  f_mean :: "nat list \<Rightarrow> 'a list \<Rightarrow> 'a"

text \<open>\<^verbatim>\<open>x.shape[i]\<close>\<close>

definition shape_at :: "'a tensor \<Rightarrow> nat \<Rightarrow> error + nat" where
  "shape_at x i = (if i < length (shape x) then Inr (shape x ! i) else Inl IndexError)"

text \<open>Row-major position of a multi-index, and the element there.\<close>

fun flat_index :: "nat list \<Rightarrow> nat list \<Rightarrow> nat" where
  "flat_index (d # ds) (i # is) = i * prod_list ds + flat_index ds is"
| "flat_index _ _ = 0"

definition tget :: "'a tensor \<Rightarrow> nat list \<Rightarrow> 'a" where
  "tget t idx = vals t ! flat_index (shape t) idx"

text \<open>Pointwise functions (\<^verbatim>\<open>torch.exp\<close>, \<^verbatim>\<open>torch.sqrt\<close>, \<^verbatim>\<open>t ** 2\<close>, \<^verbatim>\<open>c * t\<close>, \<^verbatim>\<open>c + t\<close>).\<close>

definition tmap :: "('a \<Rightarrow> 'a) \<Rightarrow> 'a tensor \<Rightarrow> 'a tensor" where
  "tmap f t = Tensor (shape t) (map f (vals t))"

text \<open>
  Binary pointwise operators broadcast: shapes are aligned at the right, a missing
  dimension counts as 1, and a dimension of size 1 is repeated to the other size;
  any other mismatch raises \<open>RuntimeError\<close>.
\<close>

definition pad_shape :: "nat \<Rightarrow> nat list \<Rightarrow> nat list" where
  "pad_shape k s = replicate (k - length s) 1 @ s"

fun broadcast_shapes :: "nat list \<Rightarrow> nat list \<Rightarrow> error + nat list" where
  "broadcast_shapes [] [] = Inr []"
| "broadcast_shapes (d # ds) (e # es) =
     (if d = e \<or> e = 1 then bind_res (broadcast_shapes ds es) (\<lambda>s. Inr (d # s))
      else if d = 1 then bind_res (broadcast_shapes ds es) (\<lambda>s. Inr (e # s))
      else Inl RuntimeError)"
| "broadcast_shapes _ _ = Inl RuntimeError"

fun expand_data :: "nat list \<Rightarrow> nat list \<Rightarrow> 'a list \<Rightarrow> 'a list" where
  "expand_data (d # ds) (e # es) xs =
     concat (map (\<lambda>i. expand_data ds es
                        (take (prod_list ds)
                           (drop ((if d = 1 then 0 else i) * prod_list ds) xs)))
                 [0..<e])"
| "expand_data _ _ xs = xs"

definition tbinop :: "('a \<Rightarrow> 'a \<Rightarrow> 'a) \<Rightarrow> 'a tensor \<Rightarrow> 'a tensor \<Rightarrow> error + 'a tensor" where
  "tbinop f a b =
     (let k = max (length (shape a)) (length (shape b));
          sa = pad_shape k (shape a);
          sb = pad_shape k (shape b)
      in bind_res (broadcast_shapes sa sb) (\<lambda>s.
           Inr (Tensor s (map2 f (expand_data sa s (vals a)) (expand_data sb s (vals b))))))"

text \<open>
  \<^verbatim>\<open>t.narrow(1, start, len)\<close> on a tensor of shape \<open>b # c # rest\<close>: the channels
  \<open>start ..< start + len\<close> of every batch element.
\<close>

definition narrow_dim1 :: "'a tensor \<Rightarrow> nat \<Rightarrow> nat \<Rightarrow> 'a tensor" where
  "narrow_dim1 t start len =
     (case shape t of
        b # c # rest \<Rightarrow>
          Tensor (b # len # rest)
            (concat (map (\<lambda>i. take (len * prod_list rest)
                                 (drop ((i * c + start) * prod_list rest) (vals t)))
                         [0..<b]))
      | _ \<Rightarrow> t)"

text \<open>
  \<^verbatim>\<open>torch.split(t, n, dim=1)\<close>: chunks of \<open>n\<close> channels, the last one smaller when
  \<open>n\<close> does not divide the channel count; one (empty) chunk when there is no channel;
  \<open>n = 0\<close> is refused unless there is no channel. A tensor without any dimension is
  refused with \<open>RuntimeError\<close>, a one-dimensional one with \<open>IndexError\<close>.
\<close>

definition torch_split_dim1 :: "'a tensor \<Rightarrow> nat \<Rightarrow> error + 'a tensor list" where
  "torch_split_dim1 t n =
     (case shape t of
        [] \<Rightarrow> Inl RuntimeError
      | [d] \<Rightarrow> Inl IndexError
      | b # c # rest \<Rightarrow>
          if n = 0 \<and> c \<noteq> 0 then Inl RuntimeError
          else
            let k = (if n = 0 then 1 else max ((c + n - 1) div n) 1)
            in Inr (map (\<lambda>i. narrow_dim1 t (i * n)
                                (if i < k - 1 then n else n - (n * k - c)))
                        [0..<k]))"

text \<open>
  \<^verbatim>\<open>torch.cat((a, b), dim=1)\<close>. A tensor without any dimension is refused with
  \<open>RuntimeError\<close>. A one-dimensional empty tensor is skipped (the library's legacy
  rule). Otherwise the first tensor needs a dimension 1 (\<open>IndexError\<close>), and the two
  shapes have the same length and agree outside dimension 1 (\<open>RuntimeError\<close>).
\<close>

definition torch_cat_dim1 :: "'a tensor \<Rightarrow> 'a tensor \<Rightarrow> error + 'a tensor" where
  "torch_cat_dim1 a b =
     (if shape a = [] \<or> shape b = [] then Inl RuntimeError
      else if shape a = [0] \<and> shape b = [0] then Inr (Tensor [0] [])
      else if shape a = [0] then (if 2 \<le> length (shape b) then Inr b else Inl IndexError)
      else if shape b = [0] then (if 2 \<le> length (shape a) then Inr a else Inl IndexError)
      else
        (case shape a of
           ba # ca # ra \<Rightarrow>
             (case shape b of
                bb # cb # rb \<Rightarrow>
                  if ba = bb \<and> ra = rb then
                    Inr (Tensor (ba # (ca + cb) # ra)
                      (concat (map (\<lambda>i.
                           take (ca * prod_list ra) (drop (i * ca * prod_list ra) (vals a)) @
                           take (cb * prod_list rb) (drop (i * cb * prod_list rb) (vals b)))
                         [0..<ba])))
                  else Inl RuntimeError
              | _ \<Rightarrow> Inl RuntimeError)
         | _ \<Rightarrow> Inl IndexError))"

text \<open>
  \<^verbatim>\<open>F.mse_loss(a, b)\<close> with the default reduction: the mean, over all dimensions, of
  the squared differences; a scalar tensor.
\<close>

definition mse_loss :: "'a arith \<Rightarrow> 'a tensor \<Rightarrow> 'a tensor \<Rightarrow> error + 'a tensor" where
  "mse_loss A a b =
     bind_res (tbinop (\<lambda>u v. f_pow A (f_sub A u v) 2) a b) (\<lambda>d.
       Inr (Tensor [] [f_mean A (shape d) (vals d)]))"

section \<open>Layers of the absent module \<^verbatim>\<open>pytorch_generative.models.vaes\<close>\<close>

text \<open>
  The classes \<^verbatim>\<open>vaes.Encoder\<close>, \<^verbatim>\<open>vaes.Decoder\<close>, \<^verbatim>\<open>vaes.Quantizer\<close> and the
  library's \<^verbatim>\<open>nn.Conv2d\<close> are not in the two source files. They are parameters: a
  constructor takes the keyword arguments the source passes and returns a layer or raises;
  a layer is the devices of its parameters (one per parameter tensor) and the function it
  computes, which may raise. A quantizer returns the quantized tensor and its loss.
\<close>

record 'a layer =
  parameters :: "string list"
  call :: "'a tensor \<Rightarrow> error + 'a tensor"

record 'a quantizer =
  q_parameters :: "string list"
  q_call :: "'a tensor \<Rightarrow> error + 'a tensor \<times> 'a tensor"

text \<open>
  Argument order of \<open>Encoder\<close> and \<open>Decoder\<close>: \<^verbatim>\<open>in_channels\<close>, \<^verbatim>\<open>out_channels\<close>,
  \<^verbatim>\<open>hidden_channels\<close>, \<^verbatim>\<open>n_residual_blocks\<close>, \<^verbatim>\<open>residual_channels\<close>, \<^verbatim>\<open>stride\<close>;
  of \<open>Quantizer\<close>: \<^verbatim>\<open>in_channels\<close>, \<^verbatim>\<open>n_embeddings\<close>, \<^verbatim>\<open>embedding_dim\<close>;
  of \<open>Conv2d\<close>: \<^verbatim>\<open>in_channels\<close>, \<^verbatim>\<open>out_channels\<close>, \<^verbatim>\<open>kernel_size\<close>.
\<close>

record 'a library =
  Encoder :: "nat \<Rightarrow> nat \<Rightarrow> nat \<Rightarrow> nat \<Rightarrow> nat \<Rightarrow> nat \<Rightarrow> error + 'a layer"
  Decoder :: "nat \<Rightarrow> nat \<Rightarrow> nat \<Rightarrow> nat \<Rightarrow> nat \<Rightarrow> nat \<Rightarrow> error + 'a layer"
  Quantizer :: "nat \<Rightarrow> nat \<Rightarrow> nat \<Rightarrow> error + 'a quantizer"
  Conv2d :: "nat \<Rightarrow> nat \<Rightarrow> nat \<Rightarrow> error + 'a layer"

section \<open>\<^verbatim>\<open>vq_vae_2.py\<close>: the class \<open>VQVAE2\<close>\<close>

record 'a VQVAE2 =
  encoder_b :: "'a layer"
  encoder_t :: "'a layer"
  quantizer_t :: "'a quantizer"
  quantizer_b :: "'a quantizer"
  decoder_t :: "'a layer"
  conv :: "'a layer"
  decoder_b :: "'a layer"

text \<open>
  \<^verbatim>\<open>VQVAE2.__init__\<close>, statement by statement. Every constructor is reached through a
  global name: \<^verbatim>\<open>vaes\<close>, \<^verbatim>\<open>nn\<close>, and for \<^verbatim>\<open>self._quantizer_b\<close> the bare name
  \<^verbatim>\<open>Quantizer\<close>. Had that name been bound, the call would build a quantizer; the
  model lets it build the one \<^verbatim>\<open>vaes.Quantizer\<close> builds on the line before.
\<close>

definition VQVAE2_init ::
  "'a library \<Rightarrow> nat \<Rightarrow> nat \<Rightarrow> nat \<Rightarrow> nat \<Rightarrow> nat \<Rightarrow> nat \<Rightarrow> nat \<Rightarrow> error + 'a VQVAE2" where
  "VQVAE2_init lib in_channels out_channels hidden_channels n_residual_blocks
       residual_channels n_embeddings embedding_dim =
     bind_res (with_global vq_vae_2_globals ''vaes''
        (Encoder lib in_channels hidden_channels hidden_channels n_residual_blocks
           residual_channels 2)) (\<lambda>enc_b.
     bind_res (with_global vq_vae_2_globals ''vaes''
        (Encoder lib hidden_channels hidden_channels hidden_channels n_residual_blocks
           residual_channels 2)) (\<lambda>enc_t.
     bind_res (with_global vq_vae_2_globals ''vaes''
        (Quantizer lib hidden_channels n_embeddings embedding_dim)) (\<lambda>q_t.
     bind_res (with_global vq_vae_2_globals ''Quantizer''
        (Quantizer lib hidden_channels n_embeddings embedding_dim)) (\<lambda>q_b.
     bind_res (with_global vq_vae_2_globals ''vaes''
        (Decoder lib embedding_dim hidden_channels hidden_channels n_residual_blocks
           residual_channels 2)) (\<lambda>dec_t.
     bind_res (with_global vq_vae_2_globals ''nn''
        (Conv2d lib in_channels embedding_dim 1)) (\<lambda>cv.
     bind_res (with_global vq_vae_2_globals ''vaes''
        (Decoder lib (2 * embedding_dim) out_channels hidden_channels n_residual_blocks
           residual_channels 2)) (\<lambda>dec_b.
     Inr \<lparr>encoder_b = enc_b, encoder_t = enc_t, quantizer_t = q_t, quantizer_b = q_b,
          decoder_t = dec_t, conv = cv, decoder_b = dec_b\<rparr>)))))))"

text \<open>
  \<^verbatim>\<open>VQVAE2.forward\<close>. The statements before the \<^verbatim>\<open>return\<close> bind the local variables;
  the \<^verbatim>\<open>return\<close> statement evaluates the tuple from left to right: \<^verbatim>\<open>xhat\<close>, then
  \<^verbatim>\<open>.5 * (vq_loss_b + vq_loss_t)\<close>, then the global name \<^verbatim>\<open>F\<close>, then the call of
  \<^verbatim>\<open>F.mse_loss\<close> and the last addition.
\<close>

record 'a forward_locals =
  encoded_b :: "'a tensor"
  encoded_t :: "'a tensor"
  quantized_t :: "'a tensor"
  vq_loss_t :: "'a tensor"
  quantized_b :: "'a tensor"
  vq_loss_b :: "'a tensor"
  decoded_t :: "'a tensor"
  xhat :: "'a tensor"

definition VQVAE2_forward_body ::
  "'a VQVAE2 \<Rightarrow> 'a tensor \<Rightarrow> error + 'a forward_locals" where
  "VQVAE2_forward_body self x =
     bind_res (call (encoder_b self) x) (\<lambda>eb.
     bind_res (call (encoder_t self) eb) (\<lambda>et.
     bind_res (q_call (quantizer_t self) et) (\<lambda>(qt, lt).
     bind_res (q_call (quantizer_b self) eb) (\<lambda>(qb, lb).
     bind_res (call (decoder_t self) qt) (\<lambda>dt.
     bind_res (with_global vq_vae_2_globals ''torch''
                 (bind_res (call (conv self) dt) (\<lambda>c. torch_cat_dim1 c qb))) (\<lambda>cc.
     bind_res (call (decoder_b self) cc) (\<lambda>xh.
     Inr \<lparr>encoded_b = eb, encoded_t = et, quantized_t = qt, vq_loss_t = lt,
          quantized_b = qb, vq_loss_b = lb, decoded_t = dt, xhat = xh\<rparr>)))))))"

definition VQVAE2_forward_return ::
  "'a arith \<Rightarrow> 'a forward_locals \<Rightarrow> error + 'a tensor \<times> 'a tensor" where
  "VQVAE2_forward_return A l =
     bind_res (tbinop (f_add A) (vq_loss_b l) (vq_loss_t l)) (\<lambda>s.
     bind_res (with_global vq_vae_2_globals ''F''
                 (mse_loss A (decoded_t l) (encoded_b l))) (\<lambda>m.
     bind_res (tbinop (f_add A) (tmap (\<lambda>v. f_mul A (f_const A 0.5) v) s) m) (\<lambda>loss.
     Inr (xhat l, loss))))"

definition VQVAE2_forward ::
  "'a arith \<Rightarrow> 'a VQVAE2 \<Rightarrow> 'a tensor \<Rightarrow> error + 'a tensor \<times> 'a tensor" where
  "VQVAE2_forward A self x =
     bind_res (VQVAE2_forward_body self x) (VQVAE2_forward_return A)"

section \<open>\<^verbatim>\<open>vae.py\<close>: the class \<open>VAE\<close>\<close>

text \<open>
  The attributes of a \<open>VAE\<close> object. \<^verbatim>\<open>_in_size\<close> is assigned by \<^verbatim>\<open>forward\<close> only,
  so a new object does not have it: the field is \<open>None\<close> until then.
\<close>

record 'a VAE =
  vae_latent_channels :: nat
  vae_stride :: nat
  vae_encoder :: "'a layer"
  vae_decoder :: "'a layer"
  vae_in_size :: "nat option"

definition VAE_init ::
  "'a library \<Rightarrow> nat \<Rightarrow> nat \<Rightarrow> nat \<Rightarrow> nat \<Rightarrow> nat \<Rightarrow> error + 'a VAE" where
  "VAE_init lib in_channels out_channels latent_channels hidden_channels residual_channels =
     bind_res (with_global vae_globals ''vaes''
        (Encoder lib in_channels (2 * latent_channels) hidden_channels 2
           residual_channels 4)) (\<lambda>enc.
     bind_res (with_global vae_globals ''vaes''
        (Decoder lib latent_channels out_channels hidden_channels 2
           residual_channels 4)) (\<lambda>dec.
     Inr \<lparr>vae_latent_channels = latent_channels, vae_stride = 4, vae_encoder = enc,
          vae_decoder = dec, vae_in_size = None\<rparr>))"

text \<open>\<^verbatim>\<open>a, b = xs\<close> raises \<open>ValueError\<close> unless \<open>xs\<close> has exactly two items.\<close>

definition unpack2 :: "'a list \<Rightarrow> error + 'a \<times> 'a" where
  "unpack2 xs = (case xs of [a, b] \<Rightarrow> Inr (a, b) | _ \<Rightarrow> Inl ValueError)"

text \<open>
  \<^verbatim>\<open>t.mean(dim=(1, 2, 3))\<close> on a tensor of shape \<open>b # c # h # w # rest\<close>: for every
  position of the remaining dimensions, the library's mean of the \<open>c * h * w\<close> elements
  the reduction visits; fewer than four dimensions raise.
\<close>

definition mean_dims123 :: "'a arith \<Rightarrow> 'a tensor \<Rightarrow> error + 'a tensor" where
  "mean_dims123 A t =
     (case shape t of
        b # c # h # w # rest \<Rightarrow>
          let n = c * h * w; r = prod_list rest
          in Inr (Tensor (b # rest)
               (concat (map (\<lambda>i. map (\<lambda>j.
                    f_mean A [c, h, w] (map (\<lambda>k. vals t ! ((i * n + k) * r + j)) [0..<n]))
                  [0..<r]) [0..<b])))
      | _ \<Rightarrow> Inl IndexError)"

text \<open>
  Random draws: the numbers that the generator hands out during the call are an input,
  \<open>noise\<close>; their distribution is not modelled. \<^verbatim>\<open>torch.randn_like(t)\<close> fills the
  shape of \<open>t\<close>.
\<close>

definition torch_randn_like :: "(nat \<Rightarrow> 'a) \<Rightarrow> 'a tensor \<Rightarrow> 'a tensor" where
  "torch_randn_like noise t = Tensor (shape t) (map noise [0..<prod_list (shape t)])"

text \<open>
  \<^verbatim>\<open>torch.randn(size)\<close> builds a tensor of a size that the caller chooses. A dimension
  outside the 64-bit integers is refused with \<open>TypeError\<close>; a negative one, an element
  count that overflows the 64-bit integers while the dimensions are multiplied up, or one
  that the allocator cannot provide, with \<open>RuntimeError\<close>. \<open>capacity\<close> is the number of
  elements the allocator can provide.
\<close>

definition int64_max :: int where
  "int64_max = 2 ^ 63 - 1"

fun numel64 :: "int \<Rightarrow> int list \<Rightarrow> int option" where
  "numel64 acc [] = Some acc"
| "numel64 acc (d # ds) = (if int64_max < acc * d then None else numel64 (acc * d) ds)"

definition torch_randn :: "nat \<Rightarrow> (nat \<Rightarrow> 'a) \<Rightarrow> int list \<Rightarrow> error + 'a tensor" where
  "torch_randn capacity noise dims =
     (if list_ex (\<lambda>d. d < - int64_max - 1 \<or> int64_max < d) dims then Inl TypeError
      else if list_ex (\<lambda>d. d < 0) dims then Inl RuntimeError
      else
        (case numel64 1 dims of
           None \<Rightarrow> Inl RuntimeError
         | Some n \<Rightarrow>
             if int capacity < n then Inl RuntimeError
             else Inr (Tensor (map nat dims) (map noise [0..<nat n]))))"

text \<open>
  \<^verbatim>\<open>VAE.forward\<close> returns the object with \<^verbatim>\<open>_in_size\<close> assigned, and the value or the
  exception. The assignment is the first statement, so it also stands when a later
  statement raises.
\<close>

definition VAE_forward ::
  "'a arith \<Rightarrow> (nat \<Rightarrow> 'a) \<Rightarrow> 'a VAE \<Rightarrow> 'a tensor \<Rightarrow>
     'a VAE \<times> (error + 'a tensor \<times> 'a tensor)" where
  "VAE_forward A noise self x =
     (case shape_at x 2 of
        Inl e \<Rightarrow> (self, Inl e)
      | Inr s \<Rightarrow>
          (self\<lparr>vae_in_size := Some s\<rparr>,
           bind_res (with_global vae_globals ''torch''
              (bind_res (call (vae_encoder self) x) (\<lambda>enc.
                 torch_split_dim1 enc (vae_latent_channels self)))) (\<lambda>chunks.
           bind_res (unpack2 chunks) (\<lambda>(mean, log_var).
           bind_res (with_global vae_globals ''torch''
              (Inr (tmap (f_exp A) log_var))) (\<lambda>var.
           bind_res (with_global vae_globals ''torch''
              (Inr (tmap (f_sqrt A) var))) (\<lambda>std.
           bind_res (with_global vae_globals ''torch''
              (Inr (torch_randn_like noise var))) (\<lambda>eps.
           bind_res (tbinop (f_mul A) std eps) (\<lambda>scaled.
           bind_res (tbinop (f_add A) mean scaled) (\<lambda>latents.
           bind_res (tbinop (f_sub A) (tmap (\<lambda>v. f_add A (f_const A 1) v) log_var)
                       (tmap (\<lambda>v. f_pow A v 2) mean)) (\<lambda>d1.
           bind_res (tbinop (f_sub A) d1 var) (\<lambda>d2.
           bind_res (mean_dims123 A d2) (\<lambda>m.
           let kl_div = tmap (\<lambda>v. f_mul A (f_const A (- 0.5)) v) m
           in bind_res (call (vae_decoder self) latents) (\<lambda>y.
              Inr (y, kl_div))))))))))))))"

text \<open>
  \<^verbatim>\<open>VAE.sample\<close>. \<^verbatim>\<open>next(self.parameters())\<close> raises \<open>StopIteration\<close> on a model
  without parameters; \<^verbatim>\<open>self._in_size\<close> raises \<open>AttributeError\<close> while unassigned;
  then the latents are drawn and decoded.
\<close>

definition VAE_sample ::
  "nat \<Rightarrow> (nat \<Rightarrow> 'a) \<Rightarrow> 'a VAE \<Rightarrow> int \<Rightarrow> error + 'a tensor" where
  "VAE_sample capacity noise self n_samples =
     (case parameters (vae_encoder self) @ parameters (vae_decoder self) of
        [] \<Rightarrow> Inl StopIteration
      | device # _ \<Rightarrow>
          (case vae_in_size self of
             None \<Rightarrow> Inl (AttributeError ''_in_size'')
           | Some s \<Rightarrow>
               let latent_size = s div (2 ^ (vae_stride self div 2))
               in bind_res
                    (with_global vae_globals ''torch''
                       (torch_randn capacity noise
                          [n_samples, int (vae_latent_channels self),
                           int latent_size, int latent_size]))
                    (\<lambda>latents. call (vae_decoder self) latents)))"

section \<open>The formula of the divergence\<close>

text \<open>
  The value the divergence is said to have for one batch element, written with the
  library's arithmetic: \<open>- 0.5\<close> times the mean, over the channels \<open>c\<close> and the
  positions \<open>h\<close>, \<open>w\<close>, of \<open>1 + log_var - mean\<^sup>2 - exp log_var\<close>.
\<close>

definition kl_formula ::
  "'a arith \<Rightarrow> nat \<Rightarrow> nat \<Rightarrow> nat \<Rightarrow> (nat \<Rightarrow> nat \<Rightarrow> nat \<Rightarrow> 'a) \<Rightarrow> (nat \<Rightarrow> nat \<Rightarrow> nat \<Rightarrow> 'a) \<Rightarrow> 'a" where
  "kl_formula A C H W mean log_var =
     f_mul A (f_const A (- 0.5))
       (f_mean A [C, H, W]
          (concat (map (\<lambda>c. concat (map (\<lambda>h. map (\<lambda>w.
              f_sub A
                (f_sub A (f_add A (f_const A 1) (log_var c h w)) (f_pow A (mean c h w) 2))
                (f_exp A (log_var c h w)))
            [0..<W]) [0..<H])) [0..<C])))"

text \<open>
  The closed form of the Kullback-Leibler divergence of the normal distribution with
  mean \<open>\<mu>\<close> and variance \<open>v\<close> from the standard normal distribution, and exact
  arithmetic on the real numbers: not the arithmetic of the code, but the one in which
  the closed form is read.
\<close>

definition kl_normal :: "real \<Rightarrow> real \<Rightarrow> real" where
  "kl_normal \<mu> v = (v + \<mu>\<^sup>2 - 1 - ln v) / 2"

definition exact_arith :: "real arith" where
  "exact_arith =
     \<lparr>f_const = (\<lambda>c. c), f_add = (+), f_sub = (-), f_mul = (*), f_pow = (^),
      f_exp = exp, f_sqrt = sqrt,
      f_mean = (\<lambda>dims xs. sum_list xs / real (length xs))\<rparr>"

section \<open>The two \<^verbatim>\<open>reproduce\<close> functions\<close>

text \<open>
  Everything \<^verbatim>\<open>reproduce\<close> calls lives outside the two source files: the data sets and
  loaders, the package \<^verbatim>\<open>pytorch_generative.models\<close> through which the model classes
  are reached, the optimizer, the scheduler and \<^verbatim>\<open>trainer.Trainer\<close> with its method
  \<^verbatim>\<open>interleaved_train_and_eval\<close>. They are parameters; each may raise. The
  \<^verbatim>\<open>import\<close> statements and the construction of the transform are taken to
  succeed. The closures
  \<^verbatim>\<open>loss_fn\<close> and \<^verbatim>\<open>sample_fn\<close> are only ever called by the trainer and are left out
  of its arguments.

  \<open>DataLoader\<close>: data set, \<^verbatim>\<open>train\<close>, \<^verbatim>\<open>batch_size\<close>, \<^verbatim>\<open>shuffle\<close>.
  \<open>Trainer\<close>: model, optimizer, train loader, eval loader, scheduler,
  \<^verbatim>\<open>sample_epochs\<close> (when passed), \<^verbatim>\<open>log_dir\<close>, \<^verbatim>\<open>device\<close>.
\<close>

record ('ld, 'md, 'op, 'sc, 'tr) collaborators =
  truthy :: "'ld \<Rightarrow> error + bool"
  DataLoader :: "string \<Rightarrow> bool \<Rightarrow> int \<Rightarrow> bool \<Rightarrow> error + 'ld"
  models_VAE :: "nat \<Rightarrow> nat \<Rightarrow> nat \<Rightarrow> nat \<Rightarrow> nat \<Rightarrow> error + 'md"
  models_VQVAE2 :: "nat \<Rightarrow> nat \<Rightarrow> nat \<Rightarrow> nat \<Rightarrow> nat \<Rightarrow> nat \<Rightarrow> nat \<Rightarrow> error + 'md"
  Adam :: "'md \<Rightarrow> real \<Rightarrow> error + 'op"
  MultiplicativeLR :: "'op \<Rightarrow> real \<Rightarrow> error + 'sc"
  Trainer :: "'md \<Rightarrow> 'op \<Rightarrow> 'ld \<Rightarrow> 'ld \<Rightarrow> 'sc \<Rightarrow> nat option \<Rightarrow> string \<Rightarrow> string \<Rightarrow> error + 'tr"
  interleaved_train_and_eval :: "'tr \<Rightarrow> int \<Rightarrow> error + unit"

text \<open>\<^verbatim>\<open>debug_loader or data.DataLoader(...)\<close>: the right operand is built only when
  the left one is \<^verbatim>\<open>None\<close> or otherwise false.\<close>

definition loader_or ::
  "('ld \<Rightarrow> error + bool) \<Rightarrow> 'ld option \<Rightarrow> error + 'ld \<Rightarrow> error + 'ld" where
  "loader_or is_true debug_loader build =
     (case debug_loader of
        None \<Rightarrow> build
      | Some l \<Rightarrow> bind_res (is_true l) (\<lambda>b. if b then Inr l else build))"

text \<open>The local variables of each \<^verbatim>\<open>reproduce\<close>: its parameters, the names its
  \<^verbatim>\<open>import\<close> statements bind, its assignments and its nested \<^verbatim>\<open>def\<close>s.\<close>

definition vae_reproduce_locals :: "string list" where
  "vae_reproduce_locals =
     [''n_epochs'', ''batch_size'', ''log_dir'', ''device'', ''debug_loader'',
      ''optim'', ''F'', ''lr_scheduler'', ''data'', ''datasets'', ''transforms'',
      ''trainer'', ''models'', ''transform'', ''train_loader'', ''test_loader'',
      ''model'', ''optimizer'', ''scheduler'', ''loss_fn'', ''sample_fn'',
      ''model_trainer'']"

definition vq_vae_2_reproduce_locals :: "string list" where
  "vq_vae_2_reproduce_locals =
     [''n_epochs'', ''batch_size'', ''log_dir'', ''device'', ''debug_loader'',
      ''optim'', ''F'', ''lr_scheduler'', ''data'', ''datasets'', ''transforms'',
      ''trainer'', ''models'', ''transform'', ''train_loader'', ''test_loader'',
      ''model'', ''optimizer'', ''scheduler'', ''loss_fn'', ''model_trainer'']"

text \<open>
  The last statement of each function resolves the name of the argument before the
  method is called: \<^verbatim>\<open>n_epochs\<close> in \<^verbatim>\<open>vae.py\<close>, \<^verbatim>\<open>N_EPOCHS\<close> in \<^verbatim>\<open>vq_vae_2.py\<close>.
  Were \<^verbatim>\<open>N_EPOCHS\<close> bound, its value would be passed; the model passes \<open>n_epochs\<close>
  there.
\<close>

definition vae_reproduce ::
  "('ld, 'md, 'op, 'sc, 'tr) collaborators \<Rightarrow> int \<Rightarrow> int \<Rightarrow> string \<Rightarrow> string \<Rightarrow>
     'ld option \<Rightarrow> error + unit" where
  "vae_reproduce co n_epochs batch_size log_dir device debug_loader =
     bind_res (loader_or (truthy co) debug_loader
                 (DataLoader co ''MNIST'' True batch_size True)) (\<lambda>train_loader.
     bind_res (loader_or (truthy co) debug_loader
                 (DataLoader co ''MNIST'' False batch_size False)) (\<lambda>test_loader.
     bind_res (models_VAE co 1 1 2 128 32) (\<lambda>model.
     bind_res (Adam co model (1 / 10 ^ 3)) (\<lambda>optimizer.
     bind_res (MultiplicativeLR co optimizer 0.999977) (\<lambda>scheduler.
     bind_res (Trainer co model optimizer train_loader test_loader scheduler (Some 5)
                 log_dir device) (\<lambda>model_trainer.
     bind_res (load_name vae_reproduce_locals vae_globals ''n_epochs'') (\<lambda>_.
     interleaved_train_and_eval co model_trainer n_epochs)))))))"

definition vq_vae_2_reproduce ::
  "('ld, 'md, 'op, 'sc, 'tr) collaborators \<Rightarrow> int \<Rightarrow> int \<Rightarrow> string \<Rightarrow> string \<Rightarrow>
     'ld option \<Rightarrow> error + unit" where
  "vq_vae_2_reproduce co n_epochs batch_size log_dir device debug_loader =
     bind_res (loader_or (truthy co) debug_loader
                 (DataLoader co ''CIFAR10'' True batch_size True)) (\<lambda>train_loader.
     bind_res (loader_or (truthy co) debug_loader
                 (DataLoader co ''CIFAR10'' False batch_size False)) (\<lambda>test_loader.
     bind_res (models_VQVAE2 co 3 3 128 2 64 512 64) (\<lambda>model.
     bind_res (Adam co model (2 / 10 ^ 4)) (\<lambda>optimizer.
     bind_res (MultiplicativeLR co optimizer 0.999977) (\<lambda>scheduler.
     bind_res (Trainer co model optimizer train_loader test_loader scheduler None
                 log_dir device) (\<lambda>model_trainer.
     bind_res (load_name vq_vae_2_reproduce_locals vq_vae_2_globals ''N_EPOCHS'') (\<lambda>_.
     interleaved_train_and_eval co model_trainer n_epochs)))))))"

section \<open>Concrete collaborators for the examples\<close>

text \<open>Layers that succeed on every input: the identity, and a quantizer that returns
  its input with a zero loss.\<close>

definition id_layer :: "real layer" where
  "id_layer = \<lparr>parameters = [''cpu''], call = (\<lambda>t. Inr t)\<rparr>"

definition id_quantizer :: "real quantizer" where
  "id_quantizer = \<lparr>q_parameters = [''cpu''], q_call = (\<lambda>t. Inr (t, Tensor [] [0]))\<rparr>"

definition id_library :: "real library" where
  "id_library =
     \<lparr>Encoder = (\<lambda>_ _ _ _ _ _. Inr id_layer), Decoder = (\<lambda>_ _ _ _ _ _. Inr id_layer),
      Quantizer = (\<lambda>_ _ _. Inr id_quantizer), Conv2d = (\<lambda>_ _ _. Inr id_layer)\<rparr>"

definition id_VQVAE2 :: "real VQVAE2" where
  "id_VQVAE2 =
     \<lparr>encoder_b = id_layer, encoder_t = id_layer, quantizer_t = id_quantizer,
      quantizer_b = id_quantizer, decoder_t = id_layer, conv = id_layer,
      decoder_b = id_layer\<rparr>"

text \<open>A model with two latent channels whose encoder and decoder are the identity, and
  an input for it: two batch elements of four channels (two of means, two of
  log-variances) on a grid of four rows and two columns.\<close>

definition id_VAE :: "real VAE" where
  "id_VAE = \<lparr>vae_latent_channels = 2, vae_stride = 4, vae_encoder = id_layer,
             vae_decoder = id_layer, vae_in_size = None\<rparr>"

definition example_input :: "real tensor" where
  "example_input =
     Tensor [2, 4, 4, 2]
       (replicate 16 1 @ replicate 16 0 @ [3, 1, 1, 1] @ replicate 12 1 @ replicate 16 0)"

text \<open>Collaborators of \<^verbatim>\<open>reproduce\<close> that all succeed; \<open>class_collaborators\<close> builds the
  model with the class of \<^verbatim>\<open>vq_vae_2.py\<close> itself.\<close>

definition ok_collaborators :: "(unit, unit, unit, unit, unit) collaborators" where
  "ok_collaborators =
     \<lparr>truthy = (\<lambda>_. Inr True), DataLoader = (\<lambda>_ _ _ _. Inr ()),
      models_VAE = (\<lambda>_ _ _ _ _. Inr ()), models_VQVAE2 = (\<lambda>_ _ _ _ _ _ _. Inr ()),
      Adam = (\<lambda>_ _. Inr ()), MultiplicativeLR = (\<lambda>_ _. Inr ()),
      Trainer = (\<lambda>_ _ _ _ _ _ _ _. Inr ()),
      interleaved_train_and_eval = (\<lambda>_ _. Inr ())\<rparr>"

definition class_collaborators :: "(unit, real VQVAE2, unit, unit, unit) collaborators" where
  "class_collaborators =
     \<lparr>truthy = (\<lambda>_. Inr True), DataLoader = (\<lambda>_ _ _ _. Inr ()),
      models_VAE = (\<lambda>_ _ _ _ _. Inl RuntimeError), models_VQVAE2 = VQVAE2_init id_library,
      Adam = (\<lambda>_ _. Inr ()), MultiplicativeLR = (\<lambda>_ _. Inr ()),
      Trainer = (\<lambda>_ _ _ _ _ _ _ _. Inr ()),
      interleaved_train_and_eval = (\<lambda>_ _. Inr ())\<rparr>"

section \<open>Basic facts\<close>

lemma bind_res_Inl [simp]: "bind_res (Inl e) f = Inl e"
  by (simp add: bind_res_def)

lemma bind_res_Inr [simp]: "bind_res (Inr v) f = f v"
  by (simp add: bind_res_def)

subsection \<open>Which names are bound\<close>

lemma unbound_Quantizer:
  "load_global vq_vae_2_globals ''Quantizer'' = Inl (NameError ''Quantizer'')"
  by (simp add: load_global_def vq_vae_2_globals_def module_dunders_def builtin_names_def)

lemma unbound_F: "load_global vq_vae_2_globals ''F'' = Inl (NameError ''F'')"
  by (simp add: load_global_def vq_vae_2_globals_def module_dunders_def builtin_names_def)

lemma unbound_N_EPOCHS:
  "load_name vq_vae_2_reproduce_locals vq_vae_2_globals ''N_EPOCHS'' =
     Inl (NameError ''N_EPOCHS'')"
  by (simp add: load_name_def load_global_def vq_vae_2_reproduce_locals_def
        vq_vae_2_globals_def module_dunders_def builtin_names_def)

lemma local_n_epochs: "load_name vae_reproduce_locals vae_globals ''n_epochs'' = Inr ()"
  by (simp add: load_name_def vae_reproduce_locals_def)

lemma bound_vq_vae_2 [simp]:
  "load_global vq_vae_2_globals ''vaes'' = Inr ()"
  "load_global vq_vae_2_globals ''nn'' = Inr ()"
  "load_global vq_vae_2_globals ''torch'' = Inr ()"
  by (simp_all add: load_global_def vq_vae_2_globals_def module_dunders_def)

lemma bound_vae [simp]:
  "load_global vae_globals ''vaes'' = Inr ()"
  "load_global vae_globals ''torch'' = Inr ()"
  by (simp_all add: load_global_def vae_globals_def module_dunders_def)

lemma with_global_bound [simp]:
  "with_global vq_vae_2_globals ''vaes'' r = r"
  "with_global vq_vae_2_globals ''nn'' r = r"
  "with_global vq_vae_2_globals ''torch'' r = r"
  "with_global vae_globals ''vaes'' r = r"
  "with_global vae_globals ''torch'' r = r"
  by (simp_all add: with_global_def)

lemma with_global_Quantizer:
  "with_global vq_vae_2_globals ''Quantizer'' r = Inl (NameError ''Quantizer'')"
  by (simp add: with_global_def unbound_Quantizer)

lemma with_global_F: "with_global vq_vae_2_globals ''F'' r = Inl (NameError ''F'')"
  by (simp add: with_global_def unbound_F)

section \<open>Constructing the two-level model\<close>

text \<open>
  C1. The claim: calling \<^verbatim>\<open>VQVAE2(...)\<close> with valid arguments, the defaults included,
  returns a model with two encoders, two quantizers and two decoders.
  The code does not: \<^verbatim>\<open>self._quantizer_b = Quantizer(...)\<close> names a class that the
  module never binds (the line before writes \<^verbatim>\<open>vaes.Quantizer\<close>). Whatever the absent
  constructors do, \<^verbatim>\<open>__init__\<close> ends in an exception: theirs, or \<open>NameError\<close> once the
  two encoders and the top quantizer are built; with the default arguments and constructors
  that succeed it is the \<open>NameError\<close>.
\<close>

theorem VQVAE2_init_raises_NameError:
  "VQVAE2_init lib in_channels out_channels hidden_channels n_residual_blocks
       residual_channels n_embeddings embedding_dim =
     (case Encoder lib in_channels hidden_channels hidden_channels n_residual_blocks
             residual_channels 2 of
        Inl e \<Rightarrow> Inl e
      | Inr enc_b \<Rightarrow>
         (case Encoder lib hidden_channels hidden_channels hidden_channels
                 n_residual_blocks residual_channels 2 of
            Inl e \<Rightarrow> Inl e
          | Inr enc_t \<Rightarrow>
             (case Quantizer lib hidden_channels n_embeddings embedding_dim of
                Inl e \<Rightarrow> Inl e
              | Inr q_t \<Rightarrow> Inl (NameError ''Quantizer'')))) \<and>
   VQVAE2_init id_library 1 1 128 2 32 128 16 = Inl (NameError ''Quantizer'')"
proof
  show "VQVAE2_init lib in_channels out_channels hidden_channels n_residual_blocks
       residual_channels n_embeddings embedding_dim =
     (case Encoder lib in_channels hidden_channels hidden_channels n_residual_blocks
             residual_channels 2 of
        Inl e \<Rightarrow> Inl e
      | Inr enc_b \<Rightarrow>
         (case Encoder lib hidden_channels hidden_channels hidden_channels
                 n_residual_blocks residual_channels 2 of
            Inl e \<Rightarrow> Inl e
          | Inr enc_t \<Rightarrow>
             (case Quantizer lib hidden_channels n_embeddings embedding_dim of
                Inl e \<Rightarrow> Inl e
              | Inr q_t \<Rightarrow> Inl (NameError ''Quantizer''))))"
    by (simp add: VQVAE2_init_def with_global_Quantizer split: sum.splits)
  show "VQVAE2_init id_library 1 1 128 2 32 128 16 = Inl (NameError ''Quantizer'')"
    by (simp add: VQVAE2_init_def id_library_def with_global_Quantizer)
qed

section \<open>The two training scripts\<close>

text \<open>
  The script of \<^verbatim>\<open>vae.py\<close> passes its parameter on: once the collaborators are built,
  what it returns is what the training loop returns for \<open>n_epochs\<close>.
\<close>

lemma vae_reproduce_passes_n_epochs:
  "vae_reproduce co n_epochs batch_size log_dir device debug_loader =
     bind_res (loader_or (truthy co) debug_loader
                 (DataLoader co ''MNIST'' True batch_size True)) (\<lambda>train_loader.
     bind_res (loader_or (truthy co) debug_loader
                 (DataLoader co ''MNIST'' False batch_size False)) (\<lambda>test_loader.
     bind_res (models_VAE co 1 1 2 128 32) (\<lambda>model.
     bind_res (Adam co model (1 / 10 ^ 3)) (\<lambda>optimizer.
     bind_res (MultiplicativeLR co optimizer 0.999977) (\<lambda>scheduler.
     bind_res (Trainer co model optimizer train_loader test_loader scheduler (Some 5)
                 log_dir device) (\<lambda>model_trainer.
     interleaved_train_and_eval co model_trainer n_epochs))))))"
  by (simp add: vae_reproduce_def local_n_epochs)

text \<open>
  C2. The claim: for both models and every \<open>n_epochs\<close>, \<^verbatim>\<open>reproduce\<close> builds the
  loaders, the model, the optimizer, the scheduler and the trainer and then runs the
  training loop for \<open>n_epochs\<close> epochs.
  The script of \<^verbatim>\<open>vq_vae_2.py\<close> does not: its last line passes \<^verbatim>\<open>N_EPOCHS\<close>, a name
  bound nowhere, where \<^verbatim>\<open>vae.py\<close> passes \<^verbatim>\<open>n_epochs\<close>. It never returns normally;
  what it does is the same whatever the training loop would do, so the loop is not run;
  with collaborators that all succeed it raises \<open>NameError\<close> for \<^verbatim>\<open>N_EPOCHS\<close>, and
  with the model class of the file itself it already stops at \<^verbatim>\<open>Quantizer\<close>.
\<close>

theorem vq_vae_2_reproduce_never_trains:
  "(\<forall>r. vq_vae_2_reproduce co n_epochs batch_size log_dir device debug_loader \<noteq> Inr r) \<and>
   vq_vae_2_reproduce (co\<lparr>interleaved_train_and_eval := loop\<rparr>) n_epochs batch_size
       log_dir device debug_loader =
     vq_vae_2_reproduce co n_epochs batch_size log_dir device debug_loader \<and>
   vq_vae_2_reproduce ok_collaborators 457 128 ''/tmp/run'' ''cuda'' None =
     Inl (NameError ''N_EPOCHS'') \<and>
   vq_vae_2_reproduce class_collaborators 457 128 ''/tmp/run'' ''cuda'' None =
     Inl (NameError ''Quantizer'')"
proof (intro conjI allI)
  fix r
  show "vq_vae_2_reproduce co n_epochs batch_size log_dir device debug_loader \<noteq> Inr r"
    by (simp add: vq_vae_2_reproduce_def unbound_N_EPOCHS bind_res_def split: sum.splits)
  show "vq_vae_2_reproduce (co\<lparr>interleaved_train_and_eval := loop\<rparr>) n_epochs batch_size
       log_dir device debug_loader =
     vq_vae_2_reproduce co n_epochs batch_size log_dir device debug_loader"
    by (simp add: vq_vae_2_reproduce_def unbound_N_EPOCHS)
  show "vq_vae_2_reproduce ok_collaborators 457 128 ''/tmp/run'' ''cuda'' None =
     Inl (NameError ''N_EPOCHS'')"
    by (simp add: vq_vae_2_reproduce_def ok_collaborators_def loader_or_def
          unbound_N_EPOCHS)
  show "vq_vae_2_reproduce class_collaborators 457 128 ''/tmp/run'' ''cuda'' None =
     Inl (NameError ''Quantizer'')"
    by (simp add: vq_vae_2_reproduce_def class_collaborators_def loader_or_def
          VQVAE2_init_def id_library_def with_global_Quantizer)
qed

section \<open>The forward pass of the two-level model\<close>

text \<open>
  C6. The claim: evaluating the loss expression that \<^verbatim>\<open>forward\<close> returns raises
  \<open>NameError\<close>, because \<^verbatim>\<open>F\<close> is bound only inside \<^verbatim>\<open>reproduce\<close>, so \<^verbatim>\<open>forward\<close>
  never returns a pair.
  For every arithmetic, model object and input the call ends in an exception; the
  \<^verbatim>\<open>return\<close> statement raises \<open>NameError\<close> for \<^verbatim>\<open>F\<close> as soon as the sum of the two
  quantizer losses, which comes first, is computed; this is what happens on a model whose
  layers all succeed; and inside \<^verbatim>\<open>reproduce\<close> the same name does resolve, as a local
  variable.
\<close>

theorem VQVAE2_forward_never_returns:
  "(\<forall>r. VQVAE2_forward A self x \<noteq> Inr r) \<and>
   VQVAE2_forward_return A l =
     (case tbinop (f_add A) (vq_loss_b l) (vq_loss_t l) of
        Inl e \<Rightarrow> Inl e
      | Inr s \<Rightarrow> Inl (NameError ''F'')) \<and>
   VQVAE2_forward exact_arith id_VQVAE2 (Tensor [1, 1, 1, 1] [2]) = Inl (NameError ''F'') \<and>
   load_name vq_vae_2_reproduce_locals vq_vae_2_globals ''F'' = Inr ()"
proof -
  have ret: "VQVAE2_forward_return B l' =
     (case tbinop (f_add B) (vq_loss_b l') (vq_loss_t l') of
        Inl e \<Rightarrow> Inl e
      | Inr s \<Rightarrow> Inl (NameError ''F''))" for l' and B :: "'b arith"
    by (simp add: VQVAE2_forward_return_def with_global_F split: sum.splits)
  have never: "VQVAE2_forward A self x \<noteq> Inr r" for r
    by (simp add: VQVAE2_forward_def ret bind_res_def split: sum.splits)
  have "VQVAE2_forward exact_arith id_VQVAE2 (Tensor [1, 1, 1, 1] [2]) =
          Inl (NameError ''F'')"
    by (simp add: VQVAE2_forward_def VQVAE2_forward_body_def ret id_VQVAE2_def
          id_layer_def id_quantizer_def torch_cat_dim1_def tbinop_def pad_shape_def)
  moreover have "load_name vq_vae_2_reproduce_locals vq_vae_2_globals ''F'' = Inr ()"
    by (simp add: load_name_def vq_vae_2_reproduce_locals_def)
  ultimately show ?thesis using ret [of A l] never by blast
qed

text \<open>
  C4. The claim: the output of the bottom encoder is encoded again by the top encoder,
  each of the two levels is quantized, and the reconstruction is what the bottom decoder
  makes of the concatenation of the convolved decoded top level with the quantized
  bottom level.
  The code produces no reconstruction. On the most favourable model object, whose seven
  layers all succeed, the call of \<^verbatim>\<open>forward\<close> raises \<open>NameError\<close> after the bottom decoder
  has run; and for no arithmetic, model object and input does the call return a pair of
  a reconstruction and a loss.
\<close>

theorem VQVAE2_forward_no_reconstruction:
  "VQVAE2_forward exact_arith id_VQVAE2 (Tensor [2, 1, 1, 2] [1, 2, 3, 4]) =
     Inl (NameError ''F'') \<and>
   (\<forall>xh loss. VQVAE2_forward A self x \<noteq> Inr (xh, loss))"
proof
  show "VQVAE2_forward exact_arith id_VQVAE2 (Tensor [2, 1, 1, 2] [1, 2, 3, 4]) =
     Inl (NameError ''F'')"
    by (simp add: VQVAE2_forward_def VQVAE2_forward_body_def VQVAE2_forward_return_def
          with_global_F id_VQVAE2_def id_layer_def id_quantizer_def torch_cat_dim1_def
          tbinop_def pad_shape_def)
  show "\<forall>xh loss. VQVAE2_forward A self x \<noteq> Inr (xh, loss)"
    by (simp add: VQVAE2_forward_def VQVAE2_forward_return_def with_global_F bind_res_def
          split: sum.splits)
qed

section \<open>Facts about tensors\<close>

lemma length_concat_blocks:
  "(\<And>i. i < n \<Longrightarrow> length (f i) = m) \<Longrightarrow> length (concat (map f [0..<n])) = n * m"
  by (induction n) simp_all

lemma nth_concat_blocks:
  "(\<And>i. i < n \<Longrightarrow> length (f i) = m) \<Longrightarrow> i < n \<Longrightarrow> j < m \<Longrightarrow>
     concat (map f [0..<n]) ! (i * m + j) = f i ! j"
proof (induction n)
  case 0
  then show ?case by simp
next
  case (Suc n)
  have len: "length (concat (map f [0..<n])) = n * m"
    using Suc.prems(1) by (intro length_concat_blocks) simp
  show ?case
  proof (cases "i < n")
    case True
    then have "i * m + j < n * m"
      using Suc.prems(3)
      by (metis add.commute less_le_trans mult.commute mult_Suc_right mult_le_mono2
          nat_add_left_cancel_less Suc_leI)
    then show ?thesis
      using Suc True len by (simp add: nth_append)
  next
    case False
    then have "i = n" using Suc.prems(2) by simp
    then show ?thesis using len by (simp add: nth_append)
  qed
qed

lemma concat_blocks:
  "length xs = d * n \<Longrightarrow> concat (map (\<lambda>i. take n (drop (i * n) xs)) [0..<d]) = xs"
proof (induction d arbitrary: xs rule: nat.induct)
  case zero
  then show ?case by simp
next
  case (Suc d)
  have same: "map (\<lambda>i. take n (drop (i * n) (take (d * n) xs))) [0..<d] =
               map (\<lambda>i. take n (drop (i * n) xs)) [0..<d]"
  proof (rule map_cong [OF refl])
    fix i assume "i \<in> set [0..<d]"
    then have "i < d" by simp
    then have "i * n + n \<le> d * n"
      by (metis Suc_leI mult_Suc mult_le_mono1 add.commute)
    then show "take n (drop (i * n) (take (d * n) xs)) = take n (drop (i * n) xs)"
      by (simp add: drop_take min_def)
  qed
  have last: "take n (drop (d * n) xs) = drop (d * n) xs"
    using Suc.prems by simp
  have "concat (map (\<lambda>i. take n (drop (i * n) xs)) [0..<Suc d]) =
        concat (map (\<lambda>i. take n (drop (i * n) xs)) [0..<d]) @ take n (drop (d * n) xs)"
    by simp
  also have "\<dots> =
        concat (map (\<lambda>i. take n (drop (i * n) (take (d * n) xs))) [0..<d]) @ drop (d * n) xs"
    by (simp only: same last)
  also have "\<dots> = take (d * n) xs @ drop (d * n) xs"
    using Suc.IH [of "take (d * n) xs"] Suc.prems by simp
  finally show ?case by simp
qed

lemma expand_data_same:
  "length xs = prod_list s \<Longrightarrow> expand_data s s xs = xs"
proof (induction s arbitrary: xs)
  case Nil
  then show ?case by simp
next
  case (Cons d ds)
  let ?n = "prod_list ds"
  have blk: "\<And>i. i < d \<Longrightarrow>
      expand_data ds ds (take ?n (drop ((if d = 1 then 0 else i) * ?n) xs)) =
      take ?n (drop (i * ?n) xs)"
  proof -
    fix i assume i: "i < d"
    then have eq: "(if d = 1 then 0 else i) = i" by auto
    have "i * ?n + ?n \<le> d * ?n"
      using i by (metis Suc_leI mult_Suc mult_le_mono1 add.commute)
    then have "length (take ?n (drop (i * ?n) xs)) = ?n"
      using Cons.prems by simp
    then show "expand_data ds ds (take ?n (drop ((if d = 1 then 0 else i) * ?n) xs)) =
      take ?n (drop (i * ?n) xs)"
      unfolding eq by (rule Cons.IH)
  qed
  have "expand_data (d # ds) (d # ds) xs =
        concat (map (\<lambda>i. take ?n (drop (i * ?n) xs)) [0..<d])"
    unfolding expand_data.simps
  proof (rule arg_cong [where f = concat], rule map_cong [OF refl])
    fix i assume "i \<in> set [0..<d]"
    then have "i < d" by simp
    then show "expand_data ds ds (take ?n (drop ((if d = 1 then 0 else i) * ?n) xs)) =
      take ?n (drop (i * ?n) xs)"
      by (rule blk)
  qed
  then show ?case using Cons.prems by (simp add: concat_blocks)
qed

lemma broadcast_shapes_same: "broadcast_shapes s s = Inr s"
  by (induction s) simp_all

lemma tbinop_same_shape:
  assumes "shape a = shape b" "wf_tensor a" "wf_tensor b"
  shows "tbinop f a b = Inr (Tensor (shape a) (map2 f (vals a) (vals b)))"
  using assms
  by (simp add: tbinop_def pad_shape_def broadcast_shapes_same expand_data_same wf_tensor_def)

lemma idx_bound: "i < n \<Longrightarrow> j < m \<Longrightarrow> i * m + j < n * (m::nat)"
proof -
  assume "i < n" "j < m"
  then have "i * m + j < i * m + m" by simp
  also have "\<dots> = Suc i * m" by simp
  also have "\<dots> \<le> n * m" using \<open>i < n\<close> by (intro mult_le_mono1) simp
  finally show ?thesis .
qed

lemma block_le: "i < b \<Longrightarrow> start + len \<le> c \<Longrightarrow>
   (i * c + start) * r + len * r \<le> b * c * (r::nat)"
proof -
  assume a: "i < b" "start + len \<le> c"
  have "(i * c + start) * r + len * r = (i * c + (start + len)) * r"
    by (simp add: algebra_simps)
  also have "\<dots> \<le> (i * c + c) * r" using a by (intro mult_le_mono1) simp
  also have "\<dots> = Suc i * c * r" by simp
  also have "\<dots> \<le> b * c * r" using a by (intro mult_le_mono1) simp
  finally show ?thesis .
qed

lemma narrow_dim1_shape:
  "shape t = b # c # rest \<Longrightarrow> shape (narrow_dim1 t start len) = b # len # rest"
  by (simp add: narrow_dim1_def)

lemma narrow_dim1_vals:
  "shape t = b # c # rest \<Longrightarrow> vals (narrow_dim1 t start len) =
     concat (map (\<lambda>i. take (len * prod_list rest)
                          (drop ((i * c + start) * prod_list rest) (vals t))) [0..<b])"
  by (simp add: narrow_dim1_def)

lemma narrow_dim1_block_length:
  assumes "shape t = b # c # rest" "wf_tensor t" "start + len \<le> c" "i < b"
  shows "length (take (len * prod_list rest)
                  (drop ((i * c + start) * prod_list rest) (vals t))) = len * prod_list rest"
proof -
  have "length (vals t) = b * c * prod_list rest"
    using assms(1,2) by (simp add: wf_tensor_def)
  then show ?thesis
    using block_le [OF assms(4,3), of "prod_list rest"] by simp
qed

lemma narrow_dim1_wf:
  assumes "shape t = b # c # rest" "wf_tensor t" "start + len \<le> c"
  shows "wf_tensor (narrow_dim1 t start len)"
proof -
  have "length (vals (narrow_dim1 t start len)) = b * (len * prod_list rest)"
    unfolding narrow_dim1_vals [OF assms(1)]
    by (rule length_concat_blocks) (rule narrow_dim1_block_length [OF assms])
  then show ?thesis
    by (simp add: wf_tensor_def narrow_dim1_shape [OF assms(1)])
qed

lemma narrow_dim1_nth:
  assumes "shape t = b # c # rest" "wf_tensor t" "start + len \<le> c"
    and "i < b" "j < len * prod_list rest"
  shows "vals (narrow_dim1 t start len) ! (i * (len * prod_list rest) + j) =
         vals t ! ((i * c + start) * prod_list rest + j)"
proof -
  have "vals (narrow_dim1 t start len) ! (i * (len * prod_list rest) + j) =
        take (len * prod_list rest)
          (drop ((i * c + start) * prod_list rest) (vals t)) ! j"
    unfolding narrow_dim1_vals [OF assms(1)]
    by (rule nth_concat_blocks [OF _ assms(4,5)])
       (rule narrow_dim1_block_length [OF assms(1-3)])
  also have "\<dots> = vals t ! ((i * c + start) * prod_list rest + j)"
  proof -
    have "length (vals t) = b * c * prod_list rest"
      using assms(1,2) by (simp add: wf_tensor_def)
    then have "(i * c + start) * prod_list rest + j < length (vals t)"
      using block_le [OF assms(4,3), of "prod_list rest"] assms(5) by simp
    then show ?thesis using assms(5) by simp
  qed
  finally show ?thesis .
qed

lemma torch_split_halves:
  assumes "shape t = b # (2 * n) # rest" "0 < n"
  shows "torch_split_dim1 t n = Inr [narrow_dim1 t 0 n, narrow_dim1 t n n]"
proof -
  define k where "k = max ((2 * n + n - 1) div n) 1"
  have "(2 * n + n - 1) div n = 2"
    by (rule div_nat_eqI) (insert assms(2), simp_all)
  then have k2: "k = 2" by (simp add: k_def)
  have "torch_split_dim1 t n =
        Inr (map (\<lambda>i. narrow_dim1 t (i * n) (if i < k - 1 then n else n - (n * k - 2 * n)))
               [0..<k])"
    unfolding torch_split_dim1_def k_def Let_def using assms by simp
  also have "[0..<k] = [0, 1]"
    by (simp add: k2 numeral_2_eq_2)
  finally show ?thesis by (simp add: k2)
qed

lemma tmap_simps [simp]:
  "shape (tmap f t) = shape t"
  "vals (tmap f t) = map f (vals t)"
  by (simp_all add: tmap_def)

lemma wf_tmap [simp]: "wf_tensor (tmap f t) = wf_tensor t"
  by (simp add: wf_tensor_def)

lemma torch_randn_like_simps [simp]:
  "shape (torch_randn_like noise t) = shape t"
  "vals (torch_randn_like noise t) = map noise [0..<prod_list (shape t)]"
  "wf_tensor (torch_randn_like noise t)"
  by (simp_all add: torch_randn_like_def wf_tensor_def)

lemma unpack2_pair [simp]: "unpack2 [a, b] = Inr (a, b)"
  by (simp add: unpack2_def)

lemma concat_singletons: "concat (map (\<lambda>i. [f i]) xs) = map f xs"
  by (induction xs) simp_all

lemma mean_dims123_rank4:
  "shape t = [b, c, h, w] \<Longrightarrow>
   mean_dims123 A t =
     Inr (Tensor [b]
       (map (\<lambda>i. f_mean A [c, h, w] (map (\<lambda>k. vals t ! (i * (c * h * w) + k)) [0..<c * h * w]))
          [0..<b]))"
  by (simp add: mean_dims123_def Let_def concat_singletons)

lemma map_upt_blocks:
  "map g [0..<a * b] = concat (map (\<lambda>i. map (\<lambda>j. g (i * b + j)) [0..<b]) [0..<a])"
proof (induction a)
  case 0
  then show ?case by simp
next
  case (Suc a)
  have split: "[0..<a * b + b] = [0..<a * b] @ [a * b..<a * b + b]"
    by (rule upt_add_eq_append) simp
  have e: "a * b + b = b + a * b"
    by simp
  have "map g [a * b..<a * b + b] = map g [a * b..<b + a * b]"
    by (simp only: e)
  also have "\<dots> = map g (map (\<lambda>j. j + a * b) [0..<b])"
    by (simp only: map_add_upt)
  also have "\<dots> = map (\<lambda>j. g (j + a * b)) [0..<b]"
    by (simp only: map_map o_def)
  also have "\<dots> = map (\<lambda>j. g (a * b + j)) [0..<b]"
    by (rule map_cong [OF refl]) (simp add: add.commute)
  finally have shift: "map g [a * b..<a * b + b] = map (\<lambda>j. g (a * b + j)) [0..<b]" .
  have s: "Suc a * b = a * b + b"
    by simp
  have "map g [0..<Suc a * b] = map g [0..<a * b] @ map g [a * b..<a * b + b]"
    by (simp only: s split map_append)
  also have "\<dots> = concat (map (\<lambda>i. map (\<lambda>j. g (i * b + j)) [0..<b]) [0..<a]) @
                  map (\<lambda>j. g (a * b + j)) [0..<b]"
    by (simp only: Suc.IH shift)
  also have "\<dots> = concat (map (\<lambda>i. map (\<lambda>j. g (i * b + j)) [0..<b]) [0..<Suc a])"
    by simp
  finally show ?case .
qed

lemma sum_list_upt: "sum_list (map g [0..<n]) = (\<Sum>k<n. g k)"
  by (simp add: interv_sum_list_conv_sum_set_nat atLeast0LessThan)

lemma tget4:
  "shape t = [B, C, H, W] \<Longrightarrow>
   tget t [b, c, h, w] = vals t ! (b * (C * (H * W)) + (c * (H * W) + (h * W + w)))"
  by (simp add: tget_def)

lemma tget1: "shape t = [B] \<Longrightarrow> tget t [b] = vals t ! b"
  by (simp add: tget_def)

lemma pos4:
  "c < C \<Longrightarrow> h < H \<Longrightarrow> w < W \<Longrightarrow> c * (H * W) + (h * W + w) < C * (H * (W::nat))"
  by (intro idx_bound) simp_all

lemma tget_narrow_dim1:
  assumes sh: "shape t = [B, C, H, W]" and wf: "wf_tensor t" and le: "start + len \<le> C"
    and b: "b < B" and c: "c < len" and h: "h < H" and w: "w < W"
  shows "tget (narrow_dim1 t start len) [b, c, h, w] = tget t [b, start + c, h, w]"
proof -
  have j: "c * (H * W) + (h * W + w) < len * prod_list [H, W]"
    using pos4 [OF c h w] by simp
  have "tget (narrow_dim1 t start len) [b, c, h, w] =
        vals (narrow_dim1 t start len) !
          (b * (len * prod_list [H, W]) + (c * (H * W) + (h * W + w)))"
    using sh by (simp add: tget4 [OF narrow_dim1_shape [OF sh]])
  also have "\<dots> = vals t ! ((b * C + start) * prod_list [H, W] + (c * (H * W) + (h * W + w)))"
    by (rule narrow_dim1_nth [OF sh wf le b j])
  also have "\<dots> = tget t [b, start + c, h, w]"
    by (simp add: tget4 [OF sh] algebra_simps)
  finally show ?thesis .
qed

lemma kl_term_nth:
  assumes "length ms = n" "length ls = n" "p < n"
  shows "map2 (f_sub A)
           (map2 (f_sub A) (map (\<lambda>v. f_add A (f_const A 1) v) ls) (map (\<lambda>v. f_pow A v 2) ms))
           (map (f_exp A) ls) ! p =
         f_sub A (f_sub A (f_add A (f_const A 1) (ls ! p)) (f_pow A (ms ! p) 2))
           (f_exp A (ls ! p))"
  using assms by simp

lemma VAE_forward_value:
  assumes enc: "call (vae_encoder self) x = Inr enc"
    and sh: "shape enc = [B, 2 * vae_latent_channels self, H, W]"
    and wf: "wf_tensor enc"
    and x: "2 < length (shape x)"
    and pos: "0 < vae_latent_channels self"
    and mean: "mean = narrow_dim1 enc 0 (vae_latent_channels self)"
    and lv: "log_var = narrow_dim1 enc (vae_latent_channels self) (vae_latent_channels self)"
    and n: "n = vae_latent_channels self * H * W"
  shows "snd (VAE_forward A noise self x) =
     bind_res (call (vae_decoder self)
         (Tensor [B, vae_latent_channels self, H, W]
            (map2 (f_add A) (vals mean)
               (map2 (f_mul A) (map (f_sqrt A) (map (f_exp A) (vals log_var)))
                  (map noise [0..<B * n])))))
       (\<lambda>y. Inr (y, Tensor [B]
           (map (\<lambda>i. f_mul A (f_const A (- 0.5))
               (f_mean A [vae_latent_channels self, H, W] (map (\<lambda>k.
                   map2 (f_sub A)
                     (map2 (f_sub A) (map (\<lambda>v. f_add A (f_const A 1) v) (vals log_var))
                        (map (\<lambda>v. f_pow A v 2) (vals mean)))
                     (map (f_exp A) (vals log_var)) ! (i * n + k)) [0..<n])))
              [0..<B])))"
proof -
  let ?lc = "vae_latent_channels self"
  let ?s = "[B, ?lc, H, W]"
  have sx: "shape_at x 2 = Inr (shape x ! 2)"
    using x by (simp add: shape_at_def)
  have split: "torch_split_dim1 enc ?lc = Inr [mean, log_var]"
    unfolding mean lv using sh pos by (rule torch_split_halves)
  have shm: "shape mean = ?s" and shl: "shape log_var = ?s"
    using sh by (simp_all add: mean lv narrow_dim1_shape)
  have wfm: "wf_tensor mean" and wfl: "wf_tensor log_var"
    unfolding mean lv using sh wf by (auto intro: narrow_dim1_wf)
  have n': "?lc * (H * W) = n"
    by (simp add: n mult.assoc)
  let ?var = "tmap (f_exp A) log_var"
  let ?std = "tmap (f_sqrt A) ?var"
  let ?eps = "torch_randn_like noise ?var"
  let ?scaled = "Tensor ?s (map2 (f_mul A) (map (f_sqrt A) (map (f_exp A) (vals log_var)))
                   (map noise [0..<B * n]))"
  have scaled: "tbinop (f_mul A) ?std ?eps = Inr ?scaled"
    using tbinop_same_shape [of ?std ?eps "f_mul A"] wfl shl by (simp add: n')
  have wfs: "wf_tensor ?scaled"
    using wfl shl by (simp add: wf_tensor_def n')
  let ?latents = "Tensor ?s (map2 (f_add A) (vals mean) (vals ?scaled))"
  have lat: "tbinop (f_add A) mean ?scaled = Inr ?latents"
    using tbinop_same_shape [of mean ?scaled "f_add A"] wfm wfs shm by simp
  let ?a = "tmap (\<lambda>v. f_add A (f_const A 1) v) log_var"
  let ?b = "tmap (\<lambda>v. f_pow A v 2) mean"
  let ?d1 = "Tensor ?s (map2 (f_sub A) (map (\<lambda>v. f_add A (f_const A 1) v) (vals log_var))
                (map (\<lambda>v. f_pow A v 2) (vals mean)))"
  have d1: "tbinop (f_sub A) ?a ?b = Inr ?d1"
    using tbinop_same_shape [of ?a ?b "f_sub A"] wfm wfl shm shl by simp
  have wfd1: "wf_tensor ?d1"
    using wfl wfm shl shm by (simp add: wf_tensor_def)
  let ?d2 = "Tensor ?s (map2 (f_sub A) (vals ?d1) (map (f_exp A) (vals log_var)))"
  have d2: "tbinop (f_sub A) ?d1 ?var = Inr ?d2"
    using tbinop_same_shape [of ?d1 ?var "f_sub A"] wfd1 wfl shl by simp
  let ?m = "Tensor [B]
       (map (\<lambda>i. f_mean A [?lc, H, W] (map (\<lambda>k. vals ?d2 ! (i * n + k)) [0..<n])) [0..<B])"
  have m: "mean_dims123 A ?d2 = Inr ?m"
    using mean_dims123_rank4 [of ?d2 B ?lc H W A] by (simp only: n tensor.sel)
  have "snd (VAE_forward A noise self x) =
        bind_res (call (vae_decoder self) ?latents)
          (\<lambda>y. Inr (y, tmap (\<lambda>v. f_mul A (f_const A (- 0.5)) v) ?m))"
    unfolding VAE_forward_def
    by (simp only: sx enc sum.case snd_conv with_global_bound bind_res_Inr split unpack2_pair
          prod.case scaled lat d1 d2 m Let_def)
  then show ?thesis
    by (simp add: tmap_def o_def)
qed

lemma kl_normal_exp: "kl_normal m (exp lv) = - 0.5 * (1 + lv - m\<^sup>2 - exp lv)"
  by (simp add: kl_normal_def field_simps)

lemma sum_list_concat_map:
  fixes f :: "'b \<Rightarrow> real list"
  shows "sum_list (concat (map f xs)) = sum_list (map (\<lambda>x. sum_list (f x)) xs)"
  by (induction xs) simp_all

lemma length_concat_map:
  "length (concat (map f xs)) = sum_list (map (\<lambda>x. length (f x)) xs)"
  by (induction xs) simp_all

lemma sum_list_const_upt: "sum_list (map (\<lambda>i. k) [0..<n]) = n * (k::nat)"
  by (induction n) simp_all

lemma sum_list_grid:
  fixes g :: "nat \<Rightarrow> nat \<Rightarrow> nat \<Rightarrow> real"
  shows "sum_list (concat (map (\<lambda>c. concat (map (\<lambda>h. map (\<lambda>w. g c h w) [0..<W]) [0..<H]))
           [0..<C])) = (\<Sum>c<C. \<Sum>h<H. \<Sum>w<W. g c h w)"
  by (simp only: sum_list_concat_map sum_list_upt)

lemma length_grid:
  "length (concat (map (\<lambda>c. concat (map (\<lambda>h. map (\<lambda>w. g c h w) [0..<W]) [0..<H])) [0..<C])) =
     C * H * W"
  by (simp only: length_concat_map length_map length_upt diff_zero sum_list_const_upt
        mult.assoc)

lemma kl_formula_exact:
  "kl_formula exact_arith C H W m lv =
     (\<Sum>c<C. \<Sum>h<H. \<Sum>w<W. kl_normal (m c h w) (exp (lv c h w))) / real (C * H * W)"
proof -
  have "kl_formula exact_arith C H W m lv =
        - 0.5 * ((\<Sum>c<C. \<Sum>h<H. \<Sum>w<W. 1 + lv c h w - (m c h w)\<^sup>2 - exp (lv c h w))
                 / real (C * H * W))"
    unfolding kl_formula_def exact_arith_def
    by (simp only: arith.simps sum_list_grid length_grid)
  also have "\<dots> = (\<Sum>c<C. \<Sum>h<H. \<Sum>w<W. kl_normal (m c h w) (exp (lv c h w)))
                   / real (C * H * W)"
    unfolding kl_normal_exp
    by (simp add: sum_distrib_left sum_negf sum_divide_distrib)
  finally show ?thesis .
qed

lemma grid_of_flat:
  "map g [0..<C * (H * W)] =
     concat (map (\<lambda>c. concat (map (\<lambda>h. map (\<lambda>w. g (c * (H * W) + (h * W + w))) [0..<W])
       [0..<H])) [0..<C])"
proof -
  have "map g [0..<C * (H * W)] =
        concat (map (\<lambda>c. map (\<lambda>j. g (c * (H * W) + j)) [0..<H * W]) [0..<C])"
    by (rule map_upt_blocks)
  also have "\<dots> = concat (map (\<lambda>c. concat (map (\<lambda>h. map (\<lambda>w. g (c * (H * W) + (h * W + w)))
       [0..<W]) [0..<H])) [0..<C])"
  proof (rule arg_cong [where f = concat], rule map_cong [OF refl])
    fix c
    show "map (\<lambda>j. g (c * (H * W) + j)) [0..<H * W] =
          concat (map (\<lambda>h. map (\<lambda>w. g (c * (H * W) + (h * W + w))) [0..<W]) [0..<H])"
      by (rule map_upt_blocks [of "\<lambda>j. g (c * (H * W) + j)" H W])
  qed
  finally show ?thesis .
qed

lemma grid_cong:
  assumes "\<And>c h w. c < C \<Longrightarrow> h < H \<Longrightarrow> w < W \<Longrightarrow> f c h w = g c h w"
  shows "concat (map (\<lambda>c. concat (map (\<lambda>h. map (\<lambda>w. f c h w) [0..<W]) [0..<H])) [0..<C]) =
         concat (map (\<lambda>c. concat (map (\<lambda>h. map (\<lambda>w. g c h w) [0..<W]) [0..<H])) [0..<C])"
proof (rule arg_cong [where f = concat], rule map_cong [OF refl])
  fix c assume "c \<in> set [0..<C]"
  then have c: "c < C" by simp
  show "concat (map (\<lambda>h. map (\<lambda>w. f c h w) [0..<W]) [0..<H]) =
        concat (map (\<lambda>h. map (\<lambda>w. g c h w) [0..<W]) [0..<H])"
  proof (rule arg_cong [where f = concat], rule map_cong [OF refl])
    fix h assume "h \<in> set [0..<H]"
    then have h: "h < H" by simp
    show "map (\<lambda>w. f c h w) [0..<W] = map (\<lambda>w. g c h w) [0..<W]"
      by (rule map_cong [OF refl]) (simp add: assms [OF c h])
  qed
qed

section \<open>The divergence returned by the variational autoencoder\<close>

text \<open>
  C8. The claim: the second value that \<^verbatim>\<open>VAE.forward\<close> returns is, for every batch
  element, \<open>- 0.5\<close> times the mean over the channel and the two spatial dimensions of
  \<open>1 + log_var - mean\<^sup>2 - exp log_var\<close>, one scalar per batch element, which is the
  closed form of the divergence of the normal distribution with that mean and variance
  \<open>exp log_var\<close> from the standard normal one, averaged over those dimensions.
  Here the encoder has returned a well-formed tensor \<open>enc\<close> of shape
  \<open>[B, 2 * latent_channels, H, W]\<close>, as its \<^verbatim>\<open>out_channels\<close> argument asks, and the
  input has a dimension 2. Then, in whatever arithmetic the library computes: the split
  gives exactly two tensors, \<open>mean\<close> the channels \<open>0 ..< latent_channels\<close> of \<open>enc\<close> and
  \<open>log_var\<close> the channels from \<open>latent_channels\<close> on; the call returns what the decoder
  returns paired with a tensor of shape \<open>[B]\<close> (or raises what the decoder raises); and
  the element \<open>b\<close> of that tensor is \<open>kl_formula\<close> on the elements of \<open>mean\<close> and
  \<open>log_var\<close> of batch element \<open>b\<close>. Read in exact arithmetic, \<open>kl_formula\<close> is the mean
  of the closed form \<open>kl_normal\<close>.
\<close>

theorem VAE_forward_kl_div:
  assumes enc: "call (vae_encoder self) x = Inr enc"
    and sh: "shape enc = [B, 2 * vae_latent_channels self, H, W]"
    and wf: "wf_tensor enc"
    and x: "2 < length (shape x)"
    and pos: "0 < vae_latent_channels self"
  shows "(\<exists>mean log_var latents kl_div.
     torch_split_dim1 enc (vae_latent_channels self) = Inr [mean, log_var] \<and>
     (\<forall>b<B. \<forall>c<vae_latent_channels self. \<forall>h<H. \<forall>w<W.
        tget mean [b, c, h, w] = tget enc [b, c, h, w] \<and>
        tget log_var [b, c, h, w] = tget enc [b, vae_latent_channels self + c, h, w]) \<and>
     snd (VAE_forward A noise self x) =
       bind_res (call (vae_decoder self) latents) (\<lambda>y. Inr (y, kl_div)) \<and>
     shape kl_div = [B] \<and> wf_tensor kl_div \<and>
     (\<forall>b<B. tget kl_div [b] =
        kl_formula A (vae_latent_channels self) H W
          (\<lambda>c h w. tget mean [b, c, h, w]) (\<lambda>c h w. tget log_var [b, c, h, w]))) \<and>
   (0 < H \<and> 0 < W \<longrightarrow>
      kl_formula exact_arith (vae_latent_channels self) H W m lv =
        (\<Sum>c<vae_latent_channels self. \<Sum>h<H. \<Sum>w<W. kl_normal (m c h w) (exp (lv c h w)))
        / real (vae_latent_channels self * H * W))"
proof -
  let ?lc = "vae_latent_channels self"
  define mean where "mean = narrow_dim1 enc 0 ?lc"
  define log_var where "log_var = narrow_dim1 enc ?lc ?lc"
  define n where "n = ?lc * H * W"
  define Z where "Z = map2 (f_sub A)
                     (map2 (f_sub A) (map (\<lambda>v. f_add A (f_const A 1) v) (vals log_var))
                        (map (\<lambda>v. f_pow A v 2) (vals mean)))
                     (map (f_exp A) (vals log_var))"
  define kl_div where "kl_div = Tensor [B]
           (map (\<lambda>i. f_mul A (f_const A (- 0.5))
               (f_mean A [?lc, H, W] (map (\<lambda>k. Z ! (i * n + k)) [0..<n]))) [0..<B])"
  define latents where "latents = Tensor [B, ?lc, H, W]
            (map2 (f_add A) (vals mean)
               (map2 (f_mul A) (map (f_sqrt A) (map (f_exp A) (vals log_var)))
                  (map noise [0..<B * n])))"
  have n': "n = ?lc * (H * W)" by (simp add: n_def)
  have split: "torch_split_dim1 enc ?lc = Inr [mean, log_var]"
    unfolding mean_def log_var_def using sh pos by (rule torch_split_halves)
  have shm: "shape mean = [B, ?lc, H, W]" and shl: "shape log_var = [B, ?lc, H, W]"
    using sh by (simp_all add: mean_def log_var_def narrow_dim1_shape)
  have "wf_tensor mean" "wf_tensor log_var"
    unfolding mean_def log_var_def using sh wf by (auto intro: narrow_dim1_wf)
  then have lm: "length (vals mean) = B * n" and ll: "length (vals log_var) = B * n"
    by (simp_all add: wf_tensor_def shm shl n')
  have halves: "tget mean [b, c, h, w] = tget enc [b, c, h, w] \<and>
        tget log_var [b, c, h, w] = tget enc [b, ?lc + c, h, w]"
    if b: "b < B" and c: "c < ?lc" and h: "h < H" and w: "w < W" for b c h w
  proof -
    have "tget mean [b, c, h, w] = tget enc [b, 0 + c, h, w]"
      unfolding mean_def by (rule tget_narrow_dim1 [OF sh wf _ b c h w]) simp
    moreover have "tget log_var [b, c, h, w] = tget enc [b, ?lc + c, h, w]"
      unfolding log_var_def by (rule tget_narrow_dim1 [OF sh wf _ b c h w]) simp
    ultimately show ?thesis by simp
  qed
  have ret: "snd (VAE_forward A noise self x) =
       bind_res (call (vae_decoder self) latents) (\<lambda>y. Inr (y, kl_div))"
    unfolding latents_def kl_div_def Z_def
    by (rule VAE_forward_value [OF enc sh wf x pos mean_def log_var_def n_def])
  have shk: "shape kl_div = [B]" and wfk: "wf_tensor kl_div"
    by (simp_all add: kl_div_def wf_tensor_def)
  have form: "tget kl_div [b] =
        kl_formula A ?lc H W (\<lambda>c h w. tget mean [b, c, h, w])
          (\<lambda>c h w. tget log_var [b, c, h, w])"
    if b: "b < B" for b
  proof -
    have "tget kl_div [b] = vals kl_div ! b"
      by (rule tget1 [OF shk])
    also have "\<dots> = f_mul A (f_const A (- 0.5))
               (f_mean A [?lc, H, W] (map (\<lambda>k. Z ! (b * n + k)) [0..<n]))"
      using b by (simp add: kl_div_def del: upt_Suc)
    also have "map (\<lambda>k. Z ! (b * n + k)) [0..<n] =
        concat (map (\<lambda>c. concat (map (\<lambda>h. map (\<lambda>w.
            Z ! (b * n + (c * (H * W) + (h * W + w)))) [0..<W]) [0..<H])) [0..<?lc])"
      unfolding n' by (rule grid_of_flat)
    also have "\<dots> =
        concat (map (\<lambda>c. concat (map (\<lambda>h. map (\<lambda>w.
            f_sub A
              (f_sub A (f_add A (f_const A 1) (tget log_var [b, c, h, w]))
                 (f_pow A (tget mean [b, c, h, w]) 2))
              (f_exp A (tget log_var [b, c, h, w])))
          [0..<W]) [0..<H])) [0..<?lc])"
    proof (rule grid_cong)
      fix c h w assume c: "c < ?lc" and h: "h < H" and w: "w < W"
      let ?p = "b * n + (c * (H * W) + (h * W + w))"
      have p: "?p < B * n"
        unfolding n' using b c h w by (intro idx_bound pos4)
      have "Z ! ?p = f_sub A (f_sub A (f_add A (f_const A 1) (vals log_var ! ?p))
                 (f_pow A (vals mean ! ?p) 2)) (f_exp A (vals log_var ! ?p))"
        unfolding Z_def by (rule kl_term_nth [OF lm ll p])
      then show "Z ! ?p = f_sub A
              (f_sub A (f_add A (f_const A 1) (tget log_var [b, c, h, w]))
                 (f_pow A (tget mean [b, c, h, w]) 2))
              (f_exp A (tget log_var [b, c, h, w]))"
        by (simp only: tget4 [OF shm] tget4 [OF shl] n')
    qed
    finally show ?thesis by (simp only: kl_formula_def)
  qed
  have first: "\<exists>mean log_var latents kl_div.
     torch_split_dim1 enc ?lc = Inr [mean, log_var] \<and>
     (\<forall>b<B. \<forall>c<?lc. \<forall>h<H. \<forall>w<W.
        tget mean [b, c, h, w] = tget enc [b, c, h, w] \<and>
        tget log_var [b, c, h, w] = tget enc [b, ?lc + c, h, w]) \<and>
     snd (VAE_forward A noise self x) =
       bind_res (call (vae_decoder self) latents) (\<lambda>y. Inr (y, kl_div)) \<and>
     shape kl_div = [B] \<and> wf_tensor kl_div \<and>
     (\<forall>b<B. tget kl_div [b] =
        kl_formula A ?lc H W
          (\<lambda>c h w. tget mean [b, c, h, w]) (\<lambda>c h w. tget log_var [b, c, h, w]))"
    using split halves ret shk wfk form
    by (intro exI [of _ mean] exI [of _ log_var] exI [of _ latents] exI [of _ kl_div] conjI)
       auto
  show ?thesis
    using first kl_formula_exact [of ?lc H W m lv] by blast
qed

theorem VAE_forward_kl_div_witness:
  "\<exists>y kl_div.
     snd (VAE_forward exact_arith (\<lambda>i. real i) id_VAE example_input) = Inr (y, kl_div) \<and>
     shape kl_div = [2] \<and> tget kl_div [0] = 1 / 2 \<and> tget kl_div [1] = 3 / 4"
proof -
  have enc: "call (vae_encoder id_VAE) example_input = Inr example_input"
    by (simp add: id_VAE_def id_layer_def)
  have sh: "shape example_input = [2, 2 * vae_latent_channels id_VAE, 4, 2]"
    by (simp add: id_VAE_def example_input_def)
  have wf: "wf_tensor example_input"
    by (simp add: wf_tensor_def example_input_def)
  have x: "2 < length (shape example_input)"
    by (simp add: example_input_def)
  have pos: "0 < vae_latent_channels id_VAE"
    by (simp add: id_VAE_def)
  have dec: "call (vae_decoder id_VAE) t = Inr t" for t
    by (simp add: id_VAE_def id_layer_def)
  have lc: "vae_latent_channels id_VAE = 2"
    by (simp add: id_VAE_def)
  have upts: "[0..<2] = [0, 1]" "[0..<4] = [0, 1, 2, 3]"
    by (simp_all add: upt_rec)
  have vals: "vals example_input =
     [1, 1, 1, 1, 1, 1, 1, 1, 1, 1, 1, 1, 1, 1, 1, 1,
      0, 0, 0, 0, 0, 0, 0, 0, 0, 0, 0, 0, 0, 0, 0, 0,
      3, 1, 1, 1, 1, 1, 1, 1, 1, 1, 1, 1, 1, 1, 1, 1,
      0, 0, 0, 0, 0, 0, 0, 0, 0, 0, 0, 0, 0, 0, 0, 0]"
    by (simp add: example_input_def numeral_eq_Suc)
  have t: "tget example_input [b, c, h, w] = vals example_input ! (b * 32 + (c * 8 + (h * 2 + w)))"
    for b c h w
    by (simp add: tget_def example_input_def)
  show ?thesis
    using conjunct1 [OF VAE_forward_kl_div [OF enc sh wf x pos, of exact_arith "\<lambda>i. real i"]]
    apply (elim exE conjE)
    subgoal for mean log_var latents kl_div
      apply (rule exI [of _ latents], rule exI [of _ kl_div])
      apply (simp add: dec lc kl_formula_def upts exact_arith_def t vals)
      done
    done
qed

section \<open>Sampling from the variational autoencoder\<close>

lemma numel64_prod: "numel64 acc ds = Some m \<Longrightarrow> m = acc * prod_list ds"
proof (induction ds arbitrary: acc)
  case Nil
  then show ?case by simp
next
  case (Cons d ds)
  from Cons.prems have "numel64 (acc * d) ds = Some m"
    by (simp split: if_splits)
  from Cons.IH [OF this] show ?case
    by (simp add: mult.assoc)
qed

lemma torch_randn_ok:
  assumes "0 \<le> n" "n \<le> int64_max" "int c \<le> int64_max" "int k \<le> int64_max"
    and "numel64 1 [n, int c, int k, int k] = Some m" "m \<le> int capacity"
  shows "torch_randn capacity noise [n, int c, int k, int k] =
           Inr (Tensor [nat n, c, k, k] (map noise [0..<nat n * c * k * k]))"
proof -
  have "m = n * (int c * (int k * int k))"
    using numel64_prod [OF assms(5)] by simp
  then have "nat m = nat n * c * k * k"
    using assms(1) by (simp add: nat_mult_distrib mult.assoc)
  moreover have "\<not> list_ex (\<lambda>d. d < - int64_max - 1 \<or> int64_max < d) [n, int c, int k, int k]"
    using assms(1-4) by (simp add: int64_max_def)
  moreover have "\<not> list_ex (\<lambda>d. d < 0) [n, int c, int k, int k]"
    using assms(1) by simp
  ultimately show ?thesis
    using assms(5,6) by (simp add: torch_randn_def)
qed

text \<open>
  C7. The claim: \<^verbatim>\<open>VAE.sample\<close> is only defined after a call of \<^verbatim>\<open>VAE.forward\<close>. On a
  freshly constructed model it raises \<open>AttributeError\<close>, because \<^verbatim>\<open>_in_size\<close> is assigned
  only inside \<^verbatim>\<open>forward\<close>; after a call of \<^verbatim>\<open>forward\<close> on an input of spatial size \<open>s\<close>,
  \<^verbatim>\<open>sample(n_samples)\<close> draws latents of shape
  \<open>(n_samples, latent_channels, s // 4, s // 4)\<close> and returns the decoder applied to them.

  Proved for every model that \<^verbatim>\<open>VAE.__init__\<close> returns, whatever the constructors of the
  absent module do, provided the model has a parameter (the first statement of
  \<^verbatim>\<open>sample\<close> asks for the device of the first one). The first conjunct is the fresh
  model. The second covers every later state of it: \<open>u\<close> is whatever \<^verbatim>\<open>_in_size\<close> earlier
  calls of \<^verbatim>\<open>forward\<close> have left, and the call of \<^verbatim>\<open>forward\<close> on \<open>x\<close> may itself return or
  raise after its first statement; \<open>s\<close> is \<^verbatim>\<open>x.shape[2]\<close>. Then, for \<open>n_samples\<close> and
  dimensions within the 64-bit integers, an element count \<open>m\<close> that does not overflow
  them and that the allocator provides, \<^verbatim>\<open>sample\<close> draws a tensor of exactly that shape,
  filled with the numbers the generator hands out, and its result is the decoder's result
  on that tensor.
\<close>

theorem VAE_sample_after_forward:
  assumes init: "VAE_init lib in_channels out_channels latent_channels hidden_channels
             residual_channels = Inr self"
    and par: "parameters (vae_encoder self) @ parameters (vae_decoder self) \<noteq> []"
  shows "VAE_sample capacity noise self n_samples = Inl (AttributeError ''_in_size'') \<and>
     (\<forall>u A noise' x s m.
        shape_at x 2 = Inr s \<and> 0 \<le> n_samples \<and> n_samples \<le> int64_max \<and>
        int latent_channels \<le> int64_max \<and> int (s div 4) \<le> int64_max \<and>
        numel64 1 [n_samples, int latent_channels, int (s div 4), int (s div 4)] = Some m \<and>
        m \<le> int capacity \<longrightarrow>
        (\<exists>latents.
           shape latents = [nat n_samples, latent_channels, s div 4, s div 4] \<and>
           wf_tensor latents \<and>
           (\<forall>i<length (vals latents). vals latents ! i = noise i) \<and>
           VAE_sample capacity noise
             (fst (VAE_forward A noise' (self\<lparr>vae_in_size := u\<rparr>) x)) n_samples =
             call (vae_decoder self) latents))"
proof -
  from init obtain enc dec where
    self: "self = \<lparr>vae_latent_channels = latent_channels, vae_stride = 4, vae_encoder = enc,
                   vae_decoder = dec, vae_in_size = None\<rparr>"
    by (auto simp: VAE_init_def bind_res_def split: sum.splits)
  from par obtain d ds where pd: "parameters enc @ parameters dec = d # ds"
    unfolding self by (cases "parameters enc @ parameters dec") simp_all
  have fresh: "VAE_sample capacity noise self n_samples = Inl (AttributeError ''_in_size'')"
    by (simp add: VAE_sample_def self pd)
  have after: "\<exists>latents.
           shape latents = [nat n_samples, latent_channels, s div 4, s div 4] \<and>
           wf_tensor latents \<and>
           (\<forall>i<length (vals latents). vals latents ! i = noise i) \<and>
           VAE_sample capacity noise
             (fst (VAE_forward A noise' (self\<lparr>vae_in_size := u\<rparr>) x)) n_samples =
             call (vae_decoder self) latents"
    if sx: "shape_at x 2 = Inr s" and n0: "0 \<le> n_samples" and n1: "n_samples \<le> int64_max"
      and c1: "int latent_channels \<le> int64_max" and k1: "int (s div 4) \<le> int64_max"
      and nm: "numel64 1 [n_samples, int latent_channels, int (s div 4), int (s div 4)] = Some m"
      and cap: "m \<le> int capacity"
    for u A noise' x s m
  proof -
    let ?latents = "Tensor [nat n_samples, latent_channels, s div 4, s div 4]
                      (map noise [0..<nat n_samples * latent_channels * (s div 4) * (s div 4)])"
    have draw: "torch_randn capacity noise
                  [n_samples, int latent_channels, int (s div 4), int (s div 4)] = Inr ?latents"
      by (rule torch_randn_ok [OF n0 n1 c1 k1 nm cap])
    have st: "fst (VAE_forward A noise' (self\<lparr>vae_in_size := u\<rparr>) x) =
                self\<lparr>vae_in_size := Some s\<rparr>"
      by (simp add: VAE_forward_def sx self)
    have "VAE_sample capacity noise (self\<lparr>vae_in_size := Some s\<rparr>) n_samples =
            call (vae_decoder self) ?latents"
      by (simp add: VAE_sample_def self pd draw Let_def)
    moreover have "wf_tensor ?latents"
      by (simp add: wf_tensor_def mult.assoc)
    ultimately show ?thesis
      unfolding st by (intro exI [of _ ?latents]) simp
  qed
  show ?thesis
    using fresh after by blast
qed


theorem VAE_sample_after_forward_witness:
  "VAE_init id_library 4 1 2 128 32 = Inr id_VAE \<and>
   VAE_sample 1000 (\<lambda>i. real i) id_VAE 16 = Inl (AttributeError ''_in_size'') \<and>
   (\<exists>y kl_div.
      snd (VAE_forward exact_arith (\<lambda>i. real i) (id_VAE\<lparr>vae_in_size := Some 28\<rparr>)
             example_input) = Inr (y, kl_div)) \<and>
   (\<exists>latents.
      shape latents = [16, 2, 1, 1] \<and> wf_tensor latents \<and> vals latents ! 31 = 31 \<and>
      VAE_sample 1000 (\<lambda>i. real i)
        (fst (VAE_forward exact_arith (\<lambda>i. real i) (id_VAE\<lparr>vae_in_size := Some 28\<rparr>)
                example_input)) 16 = Inr latents)"
proof -
  let ?self = "id_VAE\<lparr>vae_in_size := Some 28\<rparr>"
  have init: "VAE_init id_library 4 1 2 128 32 = Inr id_VAE"
    by (simp add: VAE_init_def id_library_def id_VAE_def)
  have par: "parameters (vae_encoder id_VAE) @ parameters (vae_decoder id_VAE) \<noteq> []"
    by (simp add: id_VAE_def id_layer_def)
  note sample = VAE_sample_after_forward [OF init par, of 1000 "\<lambda>i. real i" 16]
  have fresh: "VAE_sample 1000 (\<lambda>i. real i) id_VAE 16 = Inl (AttributeError ''_in_size'')"
    using sample by (rule conjunct1)
  have enc: "call (vae_encoder ?self) example_input = Inr example_input"
    by (simp add: id_VAE_def id_layer_def)
  have sh: "shape example_input = [2, 2 * vae_latent_channels ?self, 4, 2]"
    by (simp add: id_VAE_def example_input_def)
  have wf: "wf_tensor example_input"
    by (simp add: wf_tensor_def example_input_def)
  have x: "2 < length (shape example_input)"
    by (simp add: example_input_def)
  have pos: "0 < vae_latent_channels ?self"
    by (simp add: id_VAE_def)
  have dec: "call (vae_decoder ?self) t = Inr t" for t
    by (simp add: id_VAE_def id_layer_def)
  have dec': "call (vae_decoder id_VAE) t = Inr t" for t
    by (simp add: id_VAE_def id_layer_def)
  have forward: "\<exists>y kl_div.
      snd (VAE_forward exact_arith (\<lambda>i. real i) ?self example_input) = Inr (y, kl_div)"
    unfolding VAE_forward_value [OF enc sh wf x pos refl refl refl] dec
    by simp
  have hyp: "shape_at example_input 2 = Inr 4 \<and> (0::int) \<le> 16 \<and> 16 \<le> int64_max \<and>
        int 2 \<le> int64_max \<and> int (4 div 4) \<le> int64_max \<and>
        numel64 1 [16, int 2, int (4 div 4), int (4 div 4)] = Some 32 \<and> 32 \<le> int 1000"
    by (simp add: shape_at_def example_input_def int64_max_def)
  have after: "\<exists>latents.
      shape latents = [16, 2, 1, 1] \<and> wf_tensor latents \<and> vals latents ! 31 = 31 \<and>
      VAE_sample 1000 (\<lambda>i. real i)
        (fst (VAE_forward exact_arith (\<lambda>i. real i) ?self example_input)) 16 = Inr latents"
    using sample [THEN conjunct2, THEN spec [where x = "Some (28::nat)"],
        THEN spec [where x = exact_arith], THEN spec [where x = "\<lambda>i::nat. real i"],
        THEN spec [where x = example_input], THEN spec [where x = "4::nat"],
        THEN spec [where x = "32::int"], THEN mp, OF hyp]
    apply (elim exE conjE)
    subgoal for latents
      apply (rule exI [of _ latents])
      apply (simp add: dec' wf_tensor_def)
      done
    done
  show ?thesis
    using init fresh forward after by (intro conjI)
qed

end
